theory Spec2Isabelle
  imports Main "HOL-Library.Word"
begin

section \<open>Machine types\<close>

type_synonym uint8_t = "8 word"
type_synonym int32_t = "32 word"
type_synonym uint32_t = "32 word"
type_synonym int64_t = "64 word"

text \<open>A C float is only stored and copied by the code below; it is kept as its 32-bit pattern.\<close>

type_synonym float32 = "32 word"

section \<open>Accelerator enumerations\<close>

text \<open>
  \<open>Qnn_DataType_t\<close>: the enumerators the source names, and one constructor for every
  other value of the C enumeration (its payload is the raw value, none of the listed ones).
\<close>

datatype Qnn_DataType_t =
    QNN_DATATYPE_INT_8
  | QNN_DATATYPE_INT_16
  | QNN_DATATYPE_INT_32
  | QNN_DATATYPE_INT_64
  | QNN_DATATYPE_UINT_8
  | QNN_DATATYPE_UINT_16
  | QNN_DATATYPE_UINT_32
  | QNN_DATATYPE_UINT_64
  | QNN_DATATYPE_FLOAT_16
  | QNN_DATATYPE_FLOAT_32
  | QNN_DATATYPE_SFIXED_POINT_8
  | QNN_DATATYPE_SFIXED_POINT_16
  | QNN_DATATYPE_SFIXED_POINT_32
  | QNN_DATATYPE_UFIXED_POINT_8
  | QNN_DATATYPE_UFIXED_POINT_16
  | QNN_DATATYPE_UFIXED_POINT_32
  | QNN_DATATYPE_BOOL_8
  | QNN_DATATYPE_other uint32_t

section \<open>qnn\_utils.cc: GetDataSize\<close>

text \<open>
  \<open>std::accumulate\<close> folds from the left with an accumulator of the type of its initial
  value, \<open>uint32_t\<close>; the result is converted to the \<open>int64_t\<close> return type.
\<close>

definition GetDataSize :: "uint32_t list \<Rightarrow> int64_t" where
  "GetDataSize dims =
     (if length dims = 0 then 0
      else ucast (foldl (\<lambda>acc d. acc * d) (1 :: uint32_t) dims))"

section \<open>base\_op\_builder.cc: OnnxDataTypeToQnnDataType\<close>

text \<open>
  Modelled from the spec: the portable element types. The source names them through the
  enumeration \<open>ONNX_NAMESPACE::TensorProto_DataType\<close>, declared outside src/; the numbers
  are those of the ONNX interchange format.
\<close>

definition TensorProto_DataType_FLOAT :: int32_t where "TensorProto_DataType_FLOAT = 1"
definition TensorProto_DataType_UINT8 :: int32_t where "TensorProto_DataType_UINT8 = 2"
definition TensorProto_DataType_INT8 :: int32_t where "TensorProto_DataType_INT8 = 3"
definition TensorProto_DataType_UINT16 :: int32_t where "TensorProto_DataType_UINT16 = 4"
definition TensorProto_DataType_INT16 :: int32_t where "TensorProto_DataType_INT16 = 5"
definition TensorProto_DataType_INT32 :: int32_t where "TensorProto_DataType_INT32 = 6"
definition TensorProto_DataType_INT64 :: int32_t where "TensorProto_DataType_INT64 = 7"
definition TensorProto_DataType_STRING :: int32_t where "TensorProto_DataType_STRING = 8"
definition TensorProto_DataType_BOOL :: int32_t where "TensorProto_DataType_BOOL = 9"
definition TensorProto_DataType_FLOAT16 :: int32_t where "TensorProto_DataType_FLOAT16 = 10"
definition TensorProto_DataType_DOUBLE :: int32_t where "TensorProto_DataType_DOUBLE = 11"
definition TensorProto_DataType_UINT32 :: int32_t where "TensorProto_DataType_UINT32 = 12"
definition TensorProto_DataType_UINT64 :: int32_t where "TensorProto_DataType_UINT64 = 13"
definition TensorProto_DataType_BFLOAT16 :: int32_t where "TensorProto_DataType_BFLOAT16 = 16"

lemmas TensorProto_DataType_defs =
  TensorProto_DataType_FLOAT_def TensorProto_DataType_UINT8_def TensorProto_DataType_INT8_def
  TensorProto_DataType_UINT16_def TensorProto_DataType_INT16_def TensorProto_DataType_INT32_def
  TensorProto_DataType_INT64_def TensorProto_DataType_STRING_def TensorProto_DataType_BOOL_def
  TensorProto_DataType_FLOAT16_def TensorProto_DataType_DOUBLE_def
  TensorProto_DataType_UINT32_def TensorProto_DataType_UINT64_def
  TensorProto_DataType_BFLOAT16_def

text \<open>The two tables, in the order of their initializer lists.\<close>

definition onnx_to_qnn_data_type :: "(int32_t \<times> Qnn_DataType_t) list" where
  "onnx_to_qnn_data_type =
     [(TensorProto_DataType_INT8, QNN_DATATYPE_INT_8),
      (TensorProto_DataType_INT16, QNN_DATATYPE_INT_16),
      (TensorProto_DataType_INT32, QNN_DATATYPE_INT_32),
      (TensorProto_DataType_INT64, QNN_DATATYPE_INT_64),
      (TensorProto_DataType_UINT8, QNN_DATATYPE_UINT_8),
      (TensorProto_DataType_UINT16, QNN_DATATYPE_UINT_16),
      (TensorProto_DataType_UINT32, QNN_DATATYPE_UINT_32),
      (TensorProto_DataType_UINT64, QNN_DATATYPE_UINT_64),
      (TensorProto_DataType_FLOAT16, QNN_DATATYPE_FLOAT_16),
      (TensorProto_DataType_FLOAT, QNN_DATATYPE_FLOAT_32),
      (TensorProto_DataType_BOOL, QNN_DATATYPE_BOOL_8)]"

definition onnx_to_qnn_data_type_quantized :: "(int32_t \<times> Qnn_DataType_t) list" where
  "onnx_to_qnn_data_type_quantized =
     [(TensorProto_DataType_INT8, QNN_DATATYPE_SFIXED_POINT_8),
      (TensorProto_DataType_INT16, QNN_DATATYPE_SFIXED_POINT_16),
      (TensorProto_DataType_INT32, QNN_DATATYPE_SFIXED_POINT_32),
      (TensorProto_DataType_INT64, QNN_DATATYPE_INT_64),
      (TensorProto_DataType_UINT8, QNN_DATATYPE_UFIXED_POINT_8),
      (TensorProto_DataType_UINT16, QNN_DATATYPE_UFIXED_POINT_16),
      (TensorProto_DataType_UINT32, QNN_DATATYPE_UFIXED_POINT_32),
      (TensorProto_DataType_UINT64, QNN_DATATYPE_UINT_64),
      (TensorProto_DataType_FLOAT16, QNN_DATATYPE_FLOAT_16),
      (TensorProto_DataType_FLOAT, QNN_DATATYPE_FLOAT_32),
      (TensorProto_DataType_BOOL, QNN_DATATYPE_BOOL_8)]"

text \<open>
  The lambda \<open>do_type_mapping\<close>: \<open>find\<close> in the table; a miss returns false and leaves
  the out-parameter alone (\<open>None\<close>), a hit stores the mapped type and returns true.
\<close>

definition do_type_mapping ::
  "(int32_t \<times> Qnn_DataType_t) list \<Rightarrow> int32_t \<Rightarrow> Qnn_DataType_t option" where
  "do_type_mapping mapping_table onnx_data_type =
     (case map_of mapping_table onnx_data_type of
        None \<Rightarrow> None
      | Some pos \<Rightarrow> Some pos)"

definition OnnxDataTypeToQnnDataType :: "int32_t \<Rightarrow> bool \<Rightarrow> Qnn_DataType_t option" where
  "OnnxDataTypeToQnnDataType onnx_data_type is_quantized =
     (if is_quantized then do_type_mapping onnx_to_qnn_data_type_quantized onnx_data_type
      else do_type_mapping onnx_to_qnn_data_type onnx_data_type)"

text \<open>The fixed-point accelerator types, and the integer element types below 64 bits.\<close>

definition is_fixed_point :: "Qnn_DataType_t \<Rightarrow> bool" where
  "is_fixed_point q =
     (q = QNN_DATATYPE_SFIXED_POINT_8 \<or> q = QNN_DATATYPE_SFIXED_POINT_16 \<or>
      q = QNN_DATATYPE_SFIXED_POINT_32 \<or> q = QNN_DATATYPE_UFIXED_POINT_8 \<or>
      q = QNN_DATATYPE_UFIXED_POINT_16 \<or> q = QNN_DATATYPE_UFIXED_POINT_32)"

definition sub_64_bit_integer_types :: "int32_t list" where
  "sub_64_bit_integer_types =
     [TensorProto_DataType_INT8, TensorProto_DataType_INT16, TensorProto_DataType_INT32,
      TensorProto_DataType_UINT8, TensorProto_DataType_UINT16, TensorProto_DataType_UINT32]"

section \<open>Status values\<close>

text \<open>
  A failed \<open>Status\<close> and a thrown exception are both values of \<open>error\<close>:
  \<open>FAIL\<close> is the status \<open>ORT_MAKE_STATUS(ONNXRUNTIME, FAIL, msg)\<close> and what
  \<open>ORT_RETURN_IF_NOT(cond, msg)\<close> returns when the condition is false (the message is kept
  without the source location the macro adds); \<open>EXCEPTION\<close> is the exception that
  \<open>ORT_ENFORCE\<close> and \<open>ORT_THROW\<close> throw, and \<open>std::out_of_range\<close> of \<open>at\<close>;
  \<open>UNSUPPORTED_TYPE\<close> is the failure of the element-type resolution, whose code is not in
  src/; \<open>UNDEFINED_BEHAVIOUR\<close> stands where the C++ has none (\<open>inputs[0]\<close> of an empty
  vector).
\<close>

datatype error =
    FAIL string
  | EXCEPTION string
  | UNSUPPORTED_TYPE
  | UNDEFINED_BEHAVIOUR

section \<open>Accelerator descriptors\<close>

datatype Qnn_Definition_t =
    QNN_DEFINITION_IMPL_GENERATED
  | QNN_DEFINITION_DEFINED
  | QNN_DEFINITION_UNDEFINED
  | QNN_DEFINITION_other uint32_t

datatype Qnn_QuantizationEncoding_t =
    QNN_QUANTIZATION_ENCODING_SCALE_OFFSET
  | QNN_QUANTIZATION_ENCODING_AXIS_SCALE_OFFSET
  | QNN_QUANTIZATION_ENCODING_other uint32_t

datatype Qnn_TensorType_t =
    QNN_TENSOR_TYPE_APP_WRITE
  | QNN_TENSOR_TYPE_APP_READ
  | QNN_TENSOR_TYPE_APP_READWRITE
  | QNN_TENSOR_TYPE_NATIVE
  | QNN_TENSOR_TYPE_STATIC
  | QNN_TENSOR_TYPE_NULL
  | QNN_TENSOR_TYPE_other uint32_t

record Qnn_ScaleOffset_t =
  scale :: float32
  offset :: int32_t

record Qnn_QuantizeParams_t =
  encodingDefinition :: Qnn_Definition_t
  quantizationEncoding :: Qnn_QuantizationEncoding_t
  scaleOffsetEncoding :: Qnn_ScaleOffset_t

text \<open>
  \<open>Qnn_Scalar_t\<close> is a data type and a union of values. The members of the union the
  source names are kept as fields of their own: an assignment to one member leaves the other
  fields of the model alone, where in C they share storage. The code below only reads the
  member that \<open>dataType\<close> selects.
\<close>

record Qnn_Scalar_t =
  dataType :: Qnn_DataType_t
  floatValue :: float32
  int8Value :: "8 word"
  int16Value :: "16 word"
  int32Value :: int32_t
  uint8Value :: uint8_t
  uint16Value :: "16 word"
  uint32Value :: uint32_t
  bool8Value :: uint8_t

text \<open>
  Modelled from the spec: the classes \<open>QnnTensorWrapper\<close>, \<open>QnnParamWrapper\<close> and the
  operator record of \<open>QnnModelWrapper\<close> are not in src/. They are the spec's
  TensorDescriptor (name, role, element type, quantization encoding, ordered dimension list,
  optional raw byte payload), ParamDescriptor (name, and a scalar or a tensor value) and
  OperatorDescriptor (name, package, op type, ordered parameters, ordered input names, ordered
  output descriptors). The fields of a tensor descriptor are the arguments of the constructor
  calls in the source, in their order, the allocator left out.
\<close>

record QnnTensorWrapper =
  tw_name :: string
  tw_type :: Qnn_TensorType_t
  tw_data_format :: uint32_t
  tw_data_type :: Qnn_DataType_t
  tw_quantize_params :: Qnn_QuantizeParams_t
  tw_dimensions :: "uint32_t list"
  tw_client_buf :: "uint8_t list"

datatype QnnParamWrapper =
    ScalarParam string Qnn_Scalar_t
  | TensorParam string QnnTensorWrapper

record QnnOpProperty =
  op_node_name :: string
  op_package_name :: string
  op_node_type :: string
  op_params :: "QnnParamWrapper list"
  op_input_names :: "string list"
  op_outputs :: "QnnTensorWrapper list"

section \<open>The portable graph\<close>

text \<open>
  Modelled from the spec: \<open>NodeUnit\<close>, \<open>NodeArg\<close> and \<open>NodeAttrHelper\<close> belong to the
  portable-graph layer, which is not in src/. A node-unit exposes its op type, its name, its
  ordered inputs and outputs, each with a type descriptor and optional quantization
  parameters, and its attributes through accessors with typed defaults. \<open>TypeAsProto\<close> is
  the element type of the argument's type descriptor, when it has one. An attribute is kept
  as the \<open>int32_t\<close> the accessor \<open>Get(key, int32_t)\<close> reads.
\<close>

typedecl QuantParam

type_synonym TensorProto = "uint8_t list"

record NodeArg =
  Name :: string
  TypeAsProto :: "int32_t option"

record NodeUnitIODef =
  node_arg :: NodeArg
  quant_param :: "QuantParam option"

record NodeUnit =
  unit_Name :: string
  OpType :: string
  Inputs :: "NodeUnitIODef list"
  Outputs :: "NodeUnitIODef list"
  attributes :: "string \<rightharpoonup> int32_t"

definition NodeAttrHelper_Get :: "NodeUnit \<Rightarrow> string \<Rightarrow> int32_t \<Rightarrow> int32_t" where
  "NodeAttrHelper_Get node_unit key def_val =
     (case attributes node_unit key of None \<Rightarrow> def_val | Some v \<Rightarrow> v)"

section \<open>The target-graph accumulator\<close>

text \<open>
  Modelled from the spec: \<open>QnnModelWrapper\<close> is not in src/. Its state is the spec's: a
  tensor registry (name to descriptor), the set of initializer names with the initializers'
  tensors, the set of declared-output names, and the ordered operator list.
\<close>

record QnnModelWrapper =
  model_tensors :: "string \<rightharpoonup> QnnTensorWrapper"
  initializer_names :: "string set"
  initializer_tensors :: "string \<rightharpoonup> TensorProto"
  graph_outputs :: "string set"
  qnn_op_property_list :: "QnnOpProperty list"

text \<open>
  What the source uses and neither src/ nor the spec defines is a parameter of the model: the
  shape and quantization-parameter resolution, the unpacking of an initializer, the initial
  values of the quantization parameters and of a scalar, the naming of a node and of its
  accelerator op type, the names in \<open>qnn_def\<close>, and what makes the accumulator reject a
  tensor descriptor or the accelerator reject an operator. \<open>None\<close> is the \<open>false\<close> of a
  \<open>bool\<close>-returning resolution.
\<close>

record qnn_env =
  GetOnnxShape :: "QnnModelWrapper \<Rightarrow> NodeArg \<Rightarrow> uint32_t list option"
  ProcessQuantizationParameter ::
    "QnnModelWrapper \<Rightarrow> QuantParam option \<Rightarrow> float32 \<Rightarrow> int32_t \<Rightarrow> (float32 \<times> int32_t) option"
  UnpackInitializerData :: "TensorProto \<Rightarrow> error + uint8_t list"
  QNN_QUANTIZE_PARAMS_INIT :: Qnn_QuantizeParams_t
  InitializeQuantizeParam :: "Qnn_QuantizeParams_t \<Rightarrow> bool \<Rightarrow> Qnn_QuantizeParams_t"
  QNN_SCALAR_INIT :: Qnn_Scalar_t
  GetNodeName :: "NodeUnit \<Rightarrow> string"
  GetQnnOpType :: "string \<Rightarrow> string"
  qnn_def_package_name :: string
  qnn_def_axis :: string
  qnn_def_keep_dims :: string
  tensor_rejected :: "QnnTensorWrapper \<Rightarrow> bool"
  node_rejected :: "QnnModelWrapper \<Rightarrow> QnnOpProperty \<Rightarrow> bool \<Rightarrow> bool"

text \<open>
  Modelled from the spec: the queries and the two append operations of the accumulator.
  \<open>AddTensor\<close> is false if the descriptor is rejected, and true and without effect if the
  name is already present; \<open>AddNode\<close> fails if a referenced input tensor name is absent
  from the registry or the accelerator rejects the operator, validates without persisting
  when \<open>do_op_validation\<close> is set, and appends the operator otherwise.
\<close>

definition QnnContainsTensor :: "QnnModelWrapper \<Rightarrow> string \<Rightarrow> bool" where
  "QnnContainsTensor w name = (model_tensors w name \<noteq> None)"

definition IsInitializerInput :: "QnnModelWrapper \<Rightarrow> string \<Rightarrow> bool" where
  "IsInitializerInput w name = (name \<in> initializer_names w)"

definition IsGraphOutput :: "QnnModelWrapper \<Rightarrow> string \<Rightarrow> bool" where
  "IsGraphOutput w name = (name \<in> graph_outputs w)"

definition AddTensor ::
  "qnn_env \<Rightarrow> QnnModelWrapper \<Rightarrow> string \<Rightarrow> QnnTensorWrapper \<Rightarrow> bool \<times> QnnModelWrapper" where
  "AddTensor env w name tensor_wrapper =
     (if QnnContainsTensor w name then (True, w)
      else if tensor_rejected env tensor_wrapper then (False, w)
      else (True, w\<lparr>model_tensors := (model_tensors w)(name \<mapsto> tensor_wrapper)\<rparr>))"

definition AddNode ::
  "qnn_env \<Rightarrow> QnnModelWrapper \<Rightarrow> QnnOpProperty \<Rightarrow> bool \<Rightarrow> bool \<times> QnnModelWrapper" where
  "AddNode env w op do_op_validation =
     (if list_ex (\<lambda>n. \<not> QnnContainsTensor w n) (op_input_names op) then (False, w)
      else if node_rejected env w op do_op_validation then (False, w)
      else if do_op_validation then (True, w)
      else (True, w\<lparr>qnn_op_property_list := qnn_op_property_list w @ [op]\<rparr>))"

text \<open>
  Modelled from the spec: \<open>GetQnnDataType\<close> is declared with the builder's class, outside
  src/. It resolves the accelerator element type of a type descriptor through
  \<open>OnnxDataTypeToQnnDataType\<close>; a lookup miss is the unsupported-type failure.
\<close>

definition GetQnnDataType ::
  "bool \<Rightarrow> int32_t option \<Rightarrow> error + (int32_t \<times> Qnn_DataType_t)" where
  "GetQnnDataType is_quantized_node type_proto =
     (case type_proto of
        None \<Rightarrow> Inl UNSUPPORTED_TYPE
      | Some onnx_data_type \<Rightarrow>
          (case OnnxDataTypeToQnnDataType onnx_data_type is_quantized_node of
             None \<Rightarrow> Inl UNSUPPORTED_TYPE
           | Some qnn_data_type \<Rightarrow> Inr (onnx_data_type, qnn_data_type)))"

section \<open>base\_op\_builder.cc: the shared pipeline\<close>

text \<open>
  The builder's members that the stages read, \<open>op_builder_type_\<close> and \<open>output_count_\<close>
  (the number of outputs the strategy declares at most), written without the trailing
  underscore.
\<close>

record BaseOpBuilder =
  op_builder_type :: string
  output_count :: nat

definition GetOpBuilderType :: "BaseOpBuilder \<Rightarrow> string" where
  "GetOpBuilderType builder = op_builder_type builder"

text \<open>
  A stage returns \<open>Inr\<close> with the accumulator (and the values it writes through its
  reference parameters) when its status is OK, and \<open>Inl\<close> with the error otherwise.
  \<open>ProcessInputs\<close> changes the caller's accumulator and \<open>input_names\<close> input by input,
  so a failure at one input leaves the earlier inputs registered and their names pushed: its
  \<open>Inl\<close> carries the error with the accumulator and the names as they are at the return.
  The other stages change the accumulator in their last step only (\<open>AddNode\<close>), so at a
  failure the caller's accumulator is as it was and \<open>Inl\<close> carries the error alone.

  \<open>ProcessInputs\<close>: the body of the loop over the inputs. The loop carries the accumulator,
  \<open>input_names\<close>, and the two variables declared before it, \<open>quantize_param\<close> and
  \<open>qnn_data_type\<close>.
\<close>

type_synonym inputs_state =
  "QnnModelWrapper \<times> string list \<times> Qnn_QuantizeParams_t \<times> Qnn_DataType_t"

type_synonym inputs_failure = "error \<times> QnnModelWrapper \<times> string list"

definition ProcessInputs_body ::
  "qnn_env \<Rightarrow> bool \<Rightarrow> NodeUnitIODef \<Rightarrow> inputs_state \<Rightarrow> inputs_failure + inputs_state" where
  "ProcessInputs_body env is_quantized_model input st =
     (case st of (w, input_names, quantize_param, qnn_data_type) \<Rightarrow>
      let input_name = Name (node_arg input) in
      if QnnContainsTensor w input_name
      then Inr (w, input_names @ [input_name], quantize_param, qnn_data_type)
      else
       (case GetQnnDataType is_quantized_model (TypeAsProto (node_arg input)) of
          Inl e \<Rightarrow> Inl (e, w, input_names)
        | Inr (onnx_data_type, qnn_data_type) \<Rightarrow>
       (case GetOnnxShape env w (node_arg input) of
          None \<Rightarrow> Inl (FAIL ''Cannot get shape'', w, input_names)
        | Some input_shape \<Rightarrow>
       (case ProcessQuantizationParameter env w (quant_param input)
               (scale (scaleOffsetEncoding quantize_param))
               (offset (scaleOffsetEncoding quantize_param)) of
          None \<Rightarrow> Inl (FAIL ''Cannot get quantization parameter'', w, input_names)
        | Some (scale_value, offset_value) \<Rightarrow>
       (let quantize_param = quantize_param
              \<lparr>scaleOffsetEncoding := \<lparr>scale = scale_value, offset = offset_value\<rparr>\<rparr>;
            is_initializer_input = IsInitializerInput w input_name in
        case (if is_initializer_input
              then (case initializer_tensors w input_name of
                      None \<Rightarrow> Inl (EXCEPTION ''out_of_range'')
                    | Some input_tensor \<Rightarrow> UnpackInitializerData env input_tensor)
              else Inr []) of
          Inl e \<Rightarrow> Inl (e, w, input_names)
        | Inr unpacked_tensor \<Rightarrow>
       (let input_names = input_names @ [input_name];
            tensor_type = (if is_initializer_input then QNN_TENSOR_TYPE_STATIC
                           else QNN_TENSOR_TYPE_APP_WRITE);
            data_format = 0;
            input_tensorwrapper =
              \<lparr>tw_name = input_name, tw_type = tensor_type, tw_data_format = data_format,
               tw_data_type = qnn_data_type, tw_quantize_params = quantize_param,
               tw_dimensions = input_shape, tw_client_buf = unpacked_tensor\<rparr>;
            (added, w) = AddTensor env w input_name input_tensorwrapper in
        if \<not> added then Inl (FAIL ''Failed to add tensor.'', w, input_names)
        else Inr (w, input_names, quantize_param, qnn_data_type)))))))"

fun ProcessInputs_loop ::
  "qnn_env \<Rightarrow> bool \<Rightarrow> NodeUnitIODef list \<Rightarrow> inputs_state \<Rightarrow> inputs_failure + inputs_state"
  where
  "ProcessInputs_loop env is_quantized_model [] st = Inr st"
| "ProcessInputs_loop env is_quantized_model (input # inputs) st =
     (case ProcessInputs_body env is_quantized_model input st of
        Inl failure \<Rightarrow> Inl failure
      | Inr st \<Rightarrow> ProcessInputs_loop env is_quantized_model inputs st)"

definition ProcessInputs ::
  "qnn_env \<Rightarrow> QnnModelWrapper \<Rightarrow> NodeUnit \<Rightarrow> bool \<Rightarrow> string list \<Rightarrow> bool \<Rightarrow>
   inputs_failure + (QnnModelWrapper \<times> string list)" where
  "ProcessInputs env w node_unit is_quantized_model input_names do_op_validation =
     (let quantize_param =
            InitializeQuantizeParam env (QNN_QUANTIZE_PARAMS_INIT env) is_quantized_model;
          qnn_data_type = QNN_DATATYPE_FLOAT_32;
          inputs = Inputs node_unit in
      case ProcessInputs_loop env is_quantized_model inputs
             (w, input_names, quantize_param, qnn_data_type) of
        Inl failure \<Rightarrow> Inl failure
      | Inr (w, input_names, quantize_param, qnn_data_type) \<Rightarrow> Inr (w, input_names))"

text \<open>
  \<open>ProcessOutputs\<close>: the body of the loop builds one output descriptor (its variables are
  declared inside the loop); the loop runs over the outputs with index below both
  \<open>outputs.size()\<close> and \<open>output_count_\<close> and appends to \<open>qnn_outputs\<close>.
\<close>

definition ProcessOutputs_body ::
  "qnn_env \<Rightarrow> QnnModelWrapper \<Rightarrow> bool \<Rightarrow> NodeUnitIODef \<Rightarrow> error + QnnTensorWrapper" where
  "ProcessOutputs_body env w is_quantized_model output =
     (let output_name = Name (node_arg output);
          quantize_param =
            InitializeQuantizeParam env (QNN_QUANTIZE_PARAMS_INIT env) is_quantized_model in
      case GetQnnDataType is_quantized_model (TypeAsProto (node_arg output)) of
        Inl e \<Rightarrow> Inl e
      | Inr (onnx_data_type, qnn_data_type) \<Rightarrow>
     (case ProcessQuantizationParameter env w (quant_param output)
             (scale (scaleOffsetEncoding quantize_param))
             (offset (scaleOffsetEncoding quantize_param)) of
        None \<Rightarrow> Inl (FAIL ''Cannot get quantization parameter'')
      | Some (scale_value, offset_value) \<Rightarrow>
     (let quantize_param = quantize_param
            \<lparr>scaleOffsetEncoding := \<lparr>scale = scale_value, offset = offset_value\<rparr>\<rparr> in
      case GetOnnxShape env w (node_arg output) of
        None \<Rightarrow> Inl (FAIL ''Cannot get shape'')
      | Some output_shape \<Rightarrow>
     (let is_graph_output = IsGraphOutput w output_name;
          tensor_type = (if is_graph_output then QNN_TENSOR_TYPE_APP_READ
                         else QNN_TENSOR_TYPE_NATIVE);
          data_format = 0 in
      Inr \<lparr>tw_name = output_name, tw_type = tensor_type, tw_data_format = data_format,
           tw_data_type = qnn_data_type, tw_quantize_params = quantize_param,
           tw_dimensions = output_shape, tw_client_buf = []\<rparr>))))"

fun ProcessOutputs_loop ::
  "qnn_env \<Rightarrow> QnnModelWrapper \<Rightarrow> bool \<Rightarrow> NodeUnitIODef list \<Rightarrow> QnnTensorWrapper list \<Rightarrow>
   error + QnnTensorWrapper list" where
  "ProcessOutputs_loop env w is_quantized_model [] qnn_outputs = Inr qnn_outputs"
| "ProcessOutputs_loop env w is_quantized_model (output # outputs) qnn_outputs =
     (case ProcessOutputs_body env w is_quantized_model output of
        Inl e \<Rightarrow> Inl e
      | Inr qnn_output \<Rightarrow>
          ProcessOutputs_loop env w is_quantized_model outputs (qnn_outputs @ [qnn_output]))"

definition ProcessOutputs ::
  "qnn_env \<Rightarrow> BaseOpBuilder \<Rightarrow> QnnModelWrapper \<Rightarrow> NodeUnit \<Rightarrow> string list \<Rightarrow>
   QnnParamWrapper list \<Rightarrow> bool \<Rightarrow> bool \<Rightarrow> error + QnnModelWrapper" where
  "ProcessOutputs env builder w node_unit input_names node_params is_quantized_model
     do_op_validation =
     (let outputs = Outputs node_unit;
          output_size = length outputs in
      case ProcessOutputs_loop env w is_quantized_model
             (take (min output_size (output_count builder)) outputs) [] of
        Inl e \<Rightarrow> Inl e
      | Inr qnn_outputs \<Rightarrow>
     (let (added, w) =
            AddNode env w
              \<lparr>op_node_name = GetNodeName env node_unit,
               op_package_name = qnn_def_package_name env,
               op_node_type = GetQnnOpType env (OpType node_unit),
               op_params = node_params,
               op_input_names = input_names,
               op_outputs = qnn_outputs\<rparr>
              do_op_validation in
      if \<not> added then Inl (FAIL ''Failed to add node.'') else Inr w))"

definition BaseOpBuilder_ProcessAttributesAndOutputs ::
  "qnn_env \<Rightarrow> BaseOpBuilder \<Rightarrow> QnnModelWrapper \<Rightarrow> NodeUnit \<Rightarrow> string list \<Rightarrow> bool \<Rightarrow> bool \<Rightarrow>
   error + QnnModelWrapper" where
  "BaseOpBuilder_ProcessAttributesAndOutputs env builder w node_unit input_names
     is_quantized_model do_op_validation =
     (if length input_names < 1 then Inr w
      else
       (case ProcessOutputs env builder w node_unit input_names [] is_quantized_model
               do_op_validation of
          Inl e \<Rightarrow> Inl e
        | Inr w \<Rightarrow> Inr w))"

text \<open>
  \<open>ProcessAxisAttribute\<close> returns \<open>node_params\<close> and \<open>default_axis_value\<close> as it leaves
  them. \<open>rank\<close> is the size of the shape converted to \<open>int32_t\<close>; the comparisons are signed;
  the addition is that of \<open>int32_t\<close> (it cannot overflow when the size is below \<open>2^31\<close>: the
  axis is negative there and the rank is not). The conversion of the axis to \<open>uint32_t\<close>
  keeps its 32 bits.
\<close>

definition ProcessAxisAttribute ::
  "qnn_env \<Rightarrow> QnnModelWrapper \<Rightarrow> NodeUnit \<Rightarrow> QnnParamWrapper list \<Rightarrow> int32_t \<Rightarrow>
   error + (QnnParamWrapper list \<times> int32_t)" where
  "ProcessAxisAttribute env w node_unit node_params default_axis_value =
     (case Inputs node_unit of
        [] \<Rightarrow> Inl UNDEFINED_BEHAVIOUR
      | input0 # _ \<Rightarrow>
     (case GetOnnxShape env w (node_arg input0) of
        None \<Rightarrow> Inl (FAIL ''Cannot get shape'')
      | Some input_shape \<Rightarrow>
     (let rank = (of_nat (length input_shape) :: int32_t);
          onnx_axis = NodeAttrHelper_Get node_unit ''axis'' default_axis_value;
          onnx_axis = (if sint onnx_axis < 0 then onnx_axis + rank else onnx_axis) in
      if \<not> (sint onnx_axis \<ge> 0 \<and>
              sint onnx_axis < sint (of_nat (length input_shape) :: int32_t))
      then Inl (EXCEPTION ''QNN requires axis range [0, rank-1].'')
      else
     (let default_axis_value = onnx_axis;
          is_gather_op = (OpType node_unit = ''Gather'');
          axis_qnn_scalar = QNN_SCALAR_INIT env;
          axis_qnn_scalar =
            (if is_gather_op
             then axis_qnn_scalar\<lparr>dataType := QNN_DATATYPE_INT_32, int32Value := onnx_axis\<rparr>
             else axis_qnn_scalar\<lparr>dataType := QNN_DATATYPE_UINT_32, uint32Value := onnx_axis\<rparr>);
          axis_param = ScalarParam (qnn_def_axis env) axis_qnn_scalar in
      Inr (node_params @ [axis_param], default_axis_value)))))"

text \<open>
  \<open>AddToModelBuilder\<close> runs the two stages in order. The second stage is virtual: the
  strategy's implementation is the argument \<open>ProcessAttributesAndOutputs\<close>. A failure
  carries the accumulator as the first stage has left it.
\<close>

type_synonym attributes_stage =
  "qnn_env \<Rightarrow> BaseOpBuilder \<Rightarrow> QnnModelWrapper \<Rightarrow> NodeUnit \<Rightarrow> string list \<Rightarrow> bool \<Rightarrow> bool \<Rightarrow>
   error + QnnModelWrapper"

definition AddToModelBuilder ::
  "attributes_stage \<Rightarrow> qnn_env \<Rightarrow> BaseOpBuilder \<Rightarrow> QnnModelWrapper \<Rightarrow> NodeUnit \<Rightarrow> bool \<Rightarrow> bool \<Rightarrow>
   (error \<times> QnnModelWrapper) + QnnModelWrapper" where
  "AddToModelBuilder ProcessAttributesAndOutputs env builder w node_unit is_quantized_model
     do_op_validation =
     (let input_names = [] in
      case ProcessInputs env w node_unit is_quantized_model input_names do_op_validation of
        Inl (e, w, input_names) \<Rightarrow> Inl (e, w)
      | Inr (w, input_names) \<Rightarrow>
     (case ProcessAttributesAndOutputs env builder w node_unit input_names is_quantized_model
             do_op_validation of
        Inl e \<Rightarrow> Inl (e, w)
      | Inr w \<Rightarrow> Inr w))"

definition IsOpSupported ::
  "attributes_stage \<Rightarrow> qnn_env \<Rightarrow> BaseOpBuilder \<Rightarrow> QnnModelWrapper \<Rightarrow> NodeUnit \<Rightarrow> bool \<Rightarrow>
   (error \<times> QnnModelWrapper) + QnnModelWrapper" where
  "IsOpSupported ProcessAttributesAndOutputs env builder w node_unit is_quantized_model =
     AddToModelBuilder ProcessAttributesAndOutputs env builder w node_unit is_quantized_model
       True"

section \<open>argmax\_min\_op\_builder.cc\<close>

definition ArgMaxMinOpBuilder :: BaseOpBuilder where
  "ArgMaxMinOpBuilder = \<lparr>op_builder_type = ''ArgMaxMinOpBuilder'', output_count = 1\<rparr>"

definition ArgMaxMinOpBuilder_ProcessAttributesAndOutputs :: attributes_stage where
  "ArgMaxMinOpBuilder_ProcessAttributesAndOutputs env builder w node_unit input_names
     is_quantized_model do_op_validation =
     (let node_params = [];
          default_axis_value = 0 in
      case ProcessAxisAttribute env w node_unit node_params default_axis_value of
        Inl e \<Rightarrow> Inl e
      | Inr (node_params, default_axis_value) \<Rightarrow>
     (let select_last_index = NodeAttrHelper_Get node_unit ''select_last_index'' 0 in
      if select_last_index \<noteq> 0
      then Inl (FAIL ''QNN ArgMax/ArgMin only support select_last_index=0.'')
      else
     (let onnx_keepdims = NodeAttrHelper_Get node_unit ''keepdims'' 1;
          keep_dims_scalar = QNN_SCALAR_INIT env;
          keep_dims_scalar = keep_dims_scalar\<lparr>dataType := QNN_DATATYPE_BOOL_8\<rparr>;
          keep_dims_scalar = keep_dims_scalar
            \<lparr>bool8Value := (if onnx_keepdims = 0 then 0 else 1)\<rparr>;
          keep_dims_param = ScalarParam (qnn_def_keep_dims env) keep_dims_scalar;
          node_params = node_params @ [keep_dims_param] in
      case ProcessOutputs env builder w node_unit input_names node_params is_quantized_model
             do_op_validation of
        Inl e \<Rightarrow> Inl e
      | Inr w \<Rightarrow> Inr w)))"

section \<open>qnn\_utils.cc: the diagnostic formatters\<close>

text \<open>
  The descriptors of the accelerator's interface that the formatters print. A C array with
  its count (\<open>maxDimensions\<close> and \<open>rank\<close>; \<open>params\<close> and \<open>numOfParams\<close>; the tensors and
  their numbers) is a list, the count its length. A client buffer is the list of its 4-byte
  elements (\<open>dataSize / sizeof(T)\<close> of them, \<open>T\<close> being \<open>uint32_t\<close> or \<open>int32_t\<close>). The two
  members of the union in \<open>Qnn_Param_t\<close> are fields of their own, as for \<open>Qnn_Scalar_t\<close>;
  the formatter reads the one that \<open>paramType\<close> selects.
\<close>

datatype Qnn_TensorMemType_t =
    QNN_TENSORMEMTYPE_RAW
  | QNN_TENSORMEMTYPE_MEMHANDLE
  | QNN_TENSORMEMTYPE_other uint32_t

datatype Qnn_ParamType_t =
    QNN_PARAMTYPE_SCALAR
  | QNN_PARAMTYPE_TENSOR
  | QNN_PARAMTYPE_other uint32_t

record Qnn_ClientBuffer_t =
  data :: "uint32_t list"

record Qnn_Tensor_t =
  t_id :: uint32_t
  t_type :: Qnn_TensorType_t
  t_dataFormat :: uint32_t
  t_dataType :: Qnn_DataType_t
  t_maxDimensions :: "uint32_t list"
  t_memType :: Qnn_TensorMemType_t
  t_clientBuf :: Qnn_ClientBuffer_t
  t_quantizeParams :: Qnn_QuantizeParams_t

record Qnn_Param_t =
  paramType :: Qnn_ParamType_t
  p_name :: string
  scalarParam :: Qnn_Scalar_t
  tensorParam :: Qnn_Tensor_t

record Qnn_OpConfig_t =
  c_name :: string
  packageName :: string
  typeName :: string
  params :: "Qnn_Param_t list"
  inputTensors :: "Qnn_Tensor_t list"
  outputTensors :: "Qnn_Tensor_t list"

text \<open>
  An output stream is the string written so far. An insertion \<open>out << x\<close> is a function from
  the stream to the stream after it, or to the exception it throws (what was written before
  the throw is not kept). Integers are written in decimal; the text of a \<open>float\<close> is a
  parameter, \<open>show_float\<close>.
\<close>

fun show_nat :: "nat \<Rightarrow> string" where
  "show_nat n =
     (if n < 10 then [''0123456789'' ! n]
      else show_nat (n div 10) @ [''0123456789'' ! (n mod 10)])"

declare show_nat.simps [simp del]

definition show_int :: "int \<Rightarrow> string" where
  "show_int i = (if i < 0 then ''-'' @ show_nat (nat (- i)) else show_nat (nat i))"

type_synonym ostream = string

type_synonym stream_op = "ostream \<Rightarrow> error + ostream"

definition put_string :: "string \<Rightarrow> stream_op" where
  "put_string s out = Inr (out @ s)"

definition put_signed :: "'a::len word \<Rightarrow> stream_op" where
  "put_signed v out = Inr (out @ show_int (sint v))"

definition put_unsigned :: "'a::len word \<Rightarrow> stream_op" where
  "put_unsigned v out = Inr (out @ show_nat (unat v))"

definition endl :: stream_op where
  "endl out = Inr (out @ [CHR 0x0A])"

text \<open>A chain \<open>out << a << b << ...\<close>, and a counting loop whose body is such a chain.\<close>

fun put_all :: "stream_op list \<Rightarrow> stream_op" where
  "put_all [] out = Inr out"
| "put_all (f # fs) out = (case f out of Inl e \<Rightarrow> Inl e | Inr out \<Rightarrow> put_all fs out)"

definition for_loop :: "nat \<Rightarrow> (nat \<Rightarrow> stream_op list) \<Rightarrow> stream_op" where
  "for_loop n body = put_all (concat (map body [0..<n]))"

text \<open>
  The overloads of \<open>operator<<\<close>, one per descriptor type, in the order of the source. The
  \<open>default\<close> branch of a \<open>switch\<close> is the constructor for the other values.
\<close>

definition put_Qnn_Scalar_t :: "(float32 \<Rightarrow> string) \<Rightarrow> Qnn_Scalar_t \<Rightarrow> stream_op" where
  "put_Qnn_Scalar_t show_float scalar out =
     (case dataType scalar of
        QNN_DATATYPE_INT_8 \<Rightarrow> put_signed (int8Value scalar) out
      | QNN_DATATYPE_INT_16 \<Rightarrow> put_signed (int16Value scalar) out
      | QNN_DATATYPE_INT_32 \<Rightarrow> put_signed (int32Value scalar) out
      | QNN_DATATYPE_INT_64 \<Rightarrow> put_string ''int64_t is not supported'' out
      | QNN_DATATYPE_UINT_8 \<Rightarrow> put_unsigned (uint8Value scalar) out
      | QNN_DATATYPE_UINT_16 \<Rightarrow> put_unsigned (uint16Value scalar) out
      | QNN_DATATYPE_UINT_32 \<Rightarrow> put_unsigned (uint32Value scalar) out
      | QNN_DATATYPE_UINT_64 \<Rightarrow> put_string ''uint64_t is not supported'' out
      | QNN_DATATYPE_FLOAT_16 \<Rightarrow> Inr out
      | QNN_DATATYPE_FLOAT_32 \<Rightarrow> put_string (show_float (floatValue scalar)) out
      | QNN_DATATYPE_SFIXED_POINT_8 \<Rightarrow> put_string ''usigned fixedpoint data is not supported'' out
      | QNN_DATATYPE_SFIXED_POINT_16 \<Rightarrow> put_string ''usigned fixedpoint data is not supported'' out
      | QNN_DATATYPE_SFIXED_POINT_32 \<Rightarrow> put_string ''usigned fixedpoint data is not supported'' out
      | QNN_DATATYPE_UFIXED_POINT_8 \<Rightarrow> put_string ''usigned fixedpoint data is not supported'' out
      | QNN_DATATYPE_UFIXED_POINT_16 \<Rightarrow> put_string ''usigned fixedpoint data is not supported'' out
      | QNN_DATATYPE_UFIXED_POINT_32 \<Rightarrow> put_string ''usigned fixedpoint data is not supported'' out
      | QNN_DATATYPE_BOOL_8 \<Rightarrow> put_unsigned (bool8Value scalar) out
      | QNN_DATATYPE_other v \<Rightarrow> Inl (EXCEPTION ''Unknown Qnn Data type''))"

definition put_Qnn_DataType_t :: "Qnn_DataType_t \<Rightarrow> stream_op" where
  "put_Qnn_DataType_t data_type out =
     (case data_type of
        QNN_DATATYPE_INT_8 \<Rightarrow> put_string ''QNN_DATATYPE_INT_8'' out
      | QNN_DATATYPE_INT_16 \<Rightarrow> put_string ''QNN_DATATYPE_INT_16'' out
      | QNN_DATATYPE_INT_32 \<Rightarrow> put_string ''QNN_DATATYPE_INT_32'' out
      | QNN_DATATYPE_INT_64 \<Rightarrow> put_string ''QNN_DATATYPE_INT_64'' out
      | QNN_DATATYPE_UINT_8 \<Rightarrow> put_string ''QNN_DATATYPE_UINT_8'' out
      | QNN_DATATYPE_UINT_16 \<Rightarrow> put_string ''QNN_DATATYPE_UINT_16'' out
      | QNN_DATATYPE_UINT_32 \<Rightarrow> put_string ''QNN_DATATYPE_UINT_32'' out
      | QNN_DATATYPE_UINT_64 \<Rightarrow> put_string ''QNN_DATATYPE_UINT_64'' out
      | QNN_DATATYPE_FLOAT_16 \<Rightarrow> put_string ''QNN_DATATYPE_FLOAT_16'' out
      | QNN_DATATYPE_FLOAT_32 \<Rightarrow> put_string ''QNN_DATATYPE_FLOAT_32'' out
      | QNN_DATATYPE_SFIXED_POINT_8 \<Rightarrow> put_string ''QNN_DATATYPE_SFIXED_POINT_8'' out
      | QNN_DATATYPE_SFIXED_POINT_16 \<Rightarrow> put_string ''QNN_DATATYPE_SFIXED_POINT_16'' out
      | QNN_DATATYPE_SFIXED_POINT_32 \<Rightarrow> put_string ''QNN_DATATYPE_SFIXED_POINT_32'' out
      | QNN_DATATYPE_UFIXED_POINT_8 \<Rightarrow> put_string ''QNN_DATATYPE_UFIXED_POINT_8'' out
      | QNN_DATATYPE_UFIXED_POINT_16 \<Rightarrow> put_string ''QNN_DATATYPE_UFIXED_POINT_16'' out
      | QNN_DATATYPE_UFIXED_POINT_32 \<Rightarrow> put_string ''QNN_DATATYPE_UFIXED_POINT_32'' out
      | QNN_DATATYPE_BOOL_8 \<Rightarrow> put_string ''QNN_DATATYPE_BOOL_8'' out
      | QNN_DATATYPE_other v \<Rightarrow> Inl (EXCEPTION ''Unknown Qnn Data type''))"

definition put_Qnn_Definition_t :: "Qnn_Definition_t \<Rightarrow> stream_op" where
  "put_Qnn_Definition_t definition out =
     (case definition of
        QNN_DEFINITION_IMPL_GENERATED \<Rightarrow> put_string ''QNN_DEFINITION_IMPL_GENERATED'' out
      | QNN_DEFINITION_DEFINED \<Rightarrow> put_string ''QNN_DEFINITION_DEFINED'' out
      | QNN_DEFINITION_UNDEFINED \<Rightarrow> put_string ''QNN_DEFINITION_UNDEFINED'' out
      | QNN_DEFINITION_other v \<Rightarrow> put_string ''Undefined'' out)"

definition put_Qnn_QuantizationEncoding_t :: "Qnn_QuantizationEncoding_t \<Rightarrow> stream_op" where
  "put_Qnn_QuantizationEncoding_t encoding out =
     (case encoding of
        QNN_QUANTIZATION_ENCODING_SCALE_OFFSET \<Rightarrow>
          put_string ''QNN_QUANTIZATION_ENCODING_SCALE_OFFSET'' out
      | QNN_QUANTIZATION_ENCODING_AXIS_SCALE_OFFSET \<Rightarrow>
          put_string ''QNN_QUANTIZATION_ENCODING_AXIS_SCALE_OFFSET'' out
      | QNN_QUANTIZATION_ENCODING_other v \<Rightarrow> put_string ''Uknown quantization encoding'' out)"

definition put_Qnn_QuantizeParams_t ::
  "(float32 \<Rightarrow> string) \<Rightarrow> Qnn_QuantizeParams_t \<Rightarrow> stream_op" where
  "put_Qnn_QuantizeParams_t show_float quantize_params =
     put_all
       [put_string '' encodingDefinition='',
        put_Qnn_Definition_t (encodingDefinition quantize_params),
        (\<lambda>out.
           if encodingDefinition quantize_params = QNN_DEFINITION_IMPL_GENERATED \<or>
              encodingDefinition quantize_params = QNN_DEFINITION_DEFINED
           then put_all
                  [put_string '' encoding='',
                   put_Qnn_QuantizationEncoding_t (quantizationEncoding quantize_params),
                   (\<lambda>out.
                      if quantizationEncoding quantize_params =
                           QNN_QUANTIZATION_ENCODING_SCALE_OFFSET
                      then put_all
                             [put_string '' scale='',
                              put_string
                                (show_float (scale (scaleOffsetEncoding quantize_params))),
                              put_string '' offset='',
                              put_signed (offset (scaleOffsetEncoding quantize_params))] out
                      else Inr out)] out
           else Inr out)]"

definition put_Qnn_TensorType_t :: "Qnn_TensorType_t \<Rightarrow> stream_op" where
  "put_Qnn_TensorType_t tensor_type out =
     (case tensor_type of
        QNN_TENSOR_TYPE_APP_WRITE \<Rightarrow> put_string ''QNN_TENSOR_TYPE_APP_WRITE'' out
      | QNN_TENSOR_TYPE_APP_READ \<Rightarrow> put_string ''QNN_TENSOR_TYPE_APP_READ'' out
      | QNN_TENSOR_TYPE_APP_READWRITE \<Rightarrow> put_string ''QNN_TENSOR_TYPE_APP_READWRITE'' out
      | QNN_TENSOR_TYPE_NATIVE \<Rightarrow> put_string ''QNN_TENSOR_TYPE_NATIVE'' out
      | QNN_TENSOR_TYPE_STATIC \<Rightarrow> put_string ''QNN_TENSOR_TYPE_STATIC'' out
      | QNN_TENSOR_TYPE_NULL \<Rightarrow> put_string ''QNN_TENSOR_TYPE_NULL'' out
      | QNN_TENSOR_TYPE_other v \<Rightarrow> put_string ''Unsupported type'' out)"

definition put_Qnn_TensorMemType_t :: "Qnn_TensorMemType_t \<Rightarrow> stream_op" where
  "put_Qnn_TensorMemType_t mem_type out =
     (case mem_type of
        QNN_TENSORMEMTYPE_RAW \<Rightarrow> put_string ''QNN_TENSORMEMTYPE_RAW'' out
      | QNN_TENSORMEMTYPE_MEMHANDLE \<Rightarrow> put_string ''QNN_TENSORMEMTYPE_MEMHANDLE'' out
      | QNN_TENSORMEMTYPE_other v \<Rightarrow> put_string ''Unsupported mem type'' out)"

text \<open>
  The template over \<open>T\<close>: \<open>put_T\<close> writes one element as \<open>T\<close>; at most 100 elements are
  written.
\<close>

definition put_Qnn_ClientBuffer_t ::
  "(uint32_t \<Rightarrow> stream_op) \<Rightarrow> Qnn_ClientBuffer_t \<Rightarrow> stream_op" where
  "put_Qnn_ClientBuffer_t put_T client_bufer =
     (let count = length (data client_bufer);
          count = (if count > 100 then 100 else count) in
      put_all
        [put_string '' clientBuf=('',
         for_loop count (\<lambda>i. [put_T (data client_bufer ! i), put_string '' '']),
         put_string '')''])"

definition put_Qnn_Tensor_t :: "(float32 \<Rightarrow> string) \<Rightarrow> Qnn_Tensor_t \<Rightarrow> stream_op" where
  "put_Qnn_Tensor_t show_float tensor =
     put_all
       [put_string '' id='', put_unsigned (t_id tensor),
        put_string '' type='', put_Qnn_TensorType_t (t_type tensor),
        put_string '' dataFormat='', put_unsigned (t_dataFormat tensor),
        put_string '' dataType='', put_Qnn_DataType_t (t_dataType tensor),
        put_string '' rank='', (\<lambda>out. Inr (out @ show_nat (length (t_maxDimensions tensor)))),
        put_string '' maxDimensions=('',
        for_loop (length (t_maxDimensions tensor))
          (\<lambda>i. [put_unsigned (t_maxDimensions tensor ! i), put_string '' '']),
        put_string '')'',
        put_string '' memType='', put_Qnn_TensorMemType_t (t_memType tensor),
        (\<lambda>out.
           if t_memType tensor = QNN_TENSORMEMTYPE_RAW
           then (if t_dataType tensor = QNN_DATATYPE_UINT_32
                 then put_Qnn_ClientBuffer_t put_unsigned (t_clientBuf tensor) out
                 else put_Qnn_ClientBuffer_t put_signed (t_clientBuf tensor) out)
           else Inr out),
        put_string '' quantizeParams:'',
        put_Qnn_QuantizeParams_t show_float (t_quantizeParams tensor)]"

definition put_Qnn_ParamType_t :: "Qnn_ParamType_t \<Rightarrow> stream_op" where
  "put_Qnn_ParamType_t param_type out =
     (case param_type of
        QNN_PARAMTYPE_SCALAR \<Rightarrow> put_string ''QNN_PARAMTYPE_SCALAR'' out
      | QNN_PARAMTYPE_TENSOR \<Rightarrow> put_string ''QNN_PARAMTYPE_TENSOR'' out
      | QNN_PARAMTYPE_other v \<Rightarrow> put_string ''Unknown type'' out)"

definition put_Qnn_Param_t :: "(float32 \<Rightarrow> string) \<Rightarrow> Qnn_Param_t \<Rightarrow> stream_op" where
  "put_Qnn_Param_t show_float qnn_param =
     put_all
       [put_string '' type='', put_Qnn_ParamType_t (paramType qnn_param),
        put_string '' name='', put_string (p_name qnn_param),
        (\<lambda>out.
           if paramType qnn_param = QNN_PARAMTYPE_TENSOR
           then put_Qnn_Tensor_t show_float (tensorParam qnn_param) out
           else put_all [put_string '' value='',
                         put_Qnn_Scalar_t show_float (scalarParam qnn_param)] out)]"

definition put_Qnn_OpConfig_t :: "(float32 \<Rightarrow> string) \<Rightarrow> Qnn_OpConfig_t \<Rightarrow> stream_op" where
  "put_Qnn_OpConfig_t show_float op_definition =
     put_all
       [put_string ''Qnn_OpConfig node name: '', put_string (c_name op_definition),
        put_string '' package_name: '', put_string (packageName op_definition),
        put_string '' QNN_op_type: '', put_string (typeName op_definition),
        put_string '' num_of_params: '',
        (\<lambda>out. Inr (out @ show_nat (length (params op_definition)))),
        put_string '' num_of_inputs: '',
        (\<lambda>out. Inr (out @ show_nat (length (inputTensors op_definition)))),
        put_string '' num_of_outputs: '',
        (\<lambda>out. Inr (out @ show_nat (length (outputTensors op_definition)))),
        endl, put_string '' node_inputs:'', endl,
        for_loop (length (inputTensors op_definition))
          (\<lambda>i. [put_Qnn_Tensor_t show_float (inputTensors op_definition ! i), endl]),
        put_string '' node_outputs:'', endl,
        for_loop (length (outputTensors op_definition))
          (\<lambda>i. [put_Qnn_Tensor_t show_float (outputTensors op_definition ! i), endl]),
        put_string '' node_params:'', endl,
        for_loop (length (params op_definition))
          (\<lambda>i. [put_Qnn_Param_t show_float (params op_definition ! i), endl])]"

text \<open>
  An insertion returns normally when it yields a stream from every stream, and throws \<open>e\<close>
  when it throws \<open>e\<close> from every stream. The known data types are the seventeen the source
  lists; a parameter is known when the data type of the member it prints is, an operator when
  all its tensors and parameters are.
\<close>

definition returns :: "stream_op \<Rightarrow> bool" where
  "returns f = (\<forall>out. \<exists>out'. f out = Inr out')"

definition throws :: "error \<Rightarrow> stream_op \<Rightarrow> bool" where
  "throws e f = (\<forall>out. f out = Inl e)"

definition known_data_type :: "Qnn_DataType_t \<Rightarrow> bool" where
  "known_data_type data_type =
     (case data_type of QNN_DATATYPE_other v \<Rightarrow> False | _ \<Rightarrow> True)"

definition known_param :: "Qnn_Param_t \<Rightarrow> bool" where
  "known_param qnn_param =
     (if paramType qnn_param = QNN_PARAMTYPE_TENSOR
      then known_data_type (t_dataType (tensorParam qnn_param))
      else known_data_type (dataType (scalarParam qnn_param)))"

definition known_op :: "Qnn_OpConfig_t \<Rightarrow> bool" where
  "known_op op_definition =
     (list_all (\<lambda>t. known_data_type (t_dataType t)) (inputTensors op_definition) \<and>
      list_all (\<lambda>t. known_data_type (t_dataType t)) (outputTensors op_definition) \<and>
      list_all known_param (params op_definition))"

section \<open>A concrete environment\<close>

text \<open>
  One instance of the parameters, one accumulator and a family of node-units, on which the
  definitions above are evaluated: a node with the inputs \<open>data\<close> (rank 4), \<open>indices\<close>
  and the initializer \<open>weights\<close>, and the output \<open>reduced\<close>, a declared graph output
  (\<open>hidden\<close> is not one); \<open>example_wrapper_inputs\<close> is the accumulator once the three
  inputs are registered. The node \<open>example_node_failing\<close> has the inputs \<open>weights\<close>,
  \<open>unshaped\<close>, of which the shape lookup knows nothing, and \<open>data\<close>;
  \<open>example_wrapper_failing\<close> is the accumulator once \<open>weights\<close> alone is registered.
\<close>

definition example_env :: qnn_env where
  "example_env =
     \<lparr>GetOnnxShape = (\<lambda>w arg.
        map_of [(''data'', [1, 3, 8, 8]), (''indices'', [2]), (''weights'', [4]),
                (''reduced'', [1, 3, 8, 1]), (''hidden'', [1, 3, 8, 1])] (Name arg)),
      ProcessQuantizationParameter = (\<lambda>w qp scale_value offset_value.
        Some (scale_value, offset_value)),
      UnpackInitializerData = (\<lambda>tensor. Inr tensor),
      QNN_QUANTIZE_PARAMS_INIT =
        \<lparr>encodingDefinition = QNN_DEFINITION_UNDEFINED,
         quantizationEncoding = QNN_QUANTIZATION_ENCODING_other 0x7FFFFFFF,
         scaleOffsetEncoding = \<lparr>scale = 0, offset = 0\<rparr>\<rparr>,
      InitializeQuantizeParam = (\<lambda>quantize_param is_quantized_model.
        quantize_param\<lparr>encodingDefinition :=
          (if is_quantized_model then QNN_DEFINITION_DEFINED else QNN_DEFINITION_UNDEFINED)\<rparr>),
      QNN_SCALAR_INIT =
        \<lparr>dataType = QNN_DATATYPE_other 0x7FFFFFFF, floatValue = 0, int8Value = 0,
         int16Value = 0, int32Value = 0, uint8Value = 0, uint16Value = 0, uint32Value = 0,
         bool8Value = 0\<rparr>,
      GetNodeName = unit_Name,
      GetQnnOpType = (\<lambda>onnx_op_type. onnx_op_type),
      qnn_def_package_name = ''qti.aisw'',
      qnn_def_axis = ''axis'',
      qnn_def_keep_dims = ''keep_dims'',
      tensor_rejected = (\<lambda>tensor_wrapper. False),
      node_rejected = (\<lambda>w op do_op_validation. False)\<rparr>"

definition example_wrapper :: QnnModelWrapper where
  "example_wrapper =
     \<lparr>model_tensors = Map.empty,
      initializer_names = {''weights''},
      initializer_tensors = [''weights'' \<mapsto> [1, 2, 3, 4]],
      graph_outputs = {''reduced''},
      qnn_op_property_list = []\<rparr>"

definition example_io :: "string \<Rightarrow> NodeUnitIODef" where
  "example_io name =
     \<lparr>node_arg = \<lparr>Name = name, TypeAsProto = Some TensorProto_DataType_FLOAT\<rparr>,
      quant_param = None\<rparr>"

definition example_node :: "string \<Rightarrow> (string \<times> int32_t) list \<Rightarrow> NodeUnit" where
  "example_node op_type attrs =
     \<lparr>unit_Name = ''node'', OpType = op_type,
      Inputs = [example_io ''data'', example_io ''indices'', example_io ''weights''],
      Outputs = [example_io ''reduced''],
      attributes = map_of attrs\<rparr>"

definition example_tensor ::
  "string \<Rightarrow> Qnn_TensorType_t \<Rightarrow> uint32_t list \<Rightarrow> uint8_t list \<Rightarrow> QnnTensorWrapper" where
  "example_tensor name role dims bytes =
     \<lparr>tw_name = name, tw_type = role, tw_data_format = 0,
      tw_data_type = QNN_DATATYPE_FLOAT_32,
      tw_quantize_params =
        \<lparr>encodingDefinition = QNN_DEFINITION_UNDEFINED,
         quantizationEncoding = QNN_QUANTIZATION_ENCODING_other 0x7FFFFFFF,
         scaleOffsetEncoding = \<lparr>scale = 0, offset = 0\<rparr>\<rparr>,
      tw_dimensions = dims, tw_client_buf = bytes\<rparr>"

definition example_wrapper_inputs :: QnnModelWrapper where
  "example_wrapper_inputs =
     example_wrapper\<lparr>model_tensors :=
       [''data'' \<mapsto> example_tensor ''data'' QNN_TENSOR_TYPE_APP_WRITE [1, 3, 8, 8] [],
        ''indices'' \<mapsto> example_tensor ''indices'' QNN_TENSOR_TYPE_APP_WRITE [2] [],
        ''weights'' \<mapsto> example_tensor ''weights'' QNN_TENSOR_TYPE_STATIC [4] [1, 2, 3, 4]]\<rparr>"

definition example_wrapper_failing :: QnnModelWrapper where
  "example_wrapper_failing =
     example_wrapper\<lparr>model_tensors :=
       [''weights'' \<mapsto> example_tensor ''weights'' QNN_TENSOR_TYPE_STATIC [4] [1, 2, 3, 4]]\<rparr>"

definition example_node_hidden :: NodeUnit where
  "example_node_hidden = (example_node ''Relu'' [])\<lparr>Outputs := [example_io ''hidden'']\<rparr>"

definition example_node_failing :: NodeUnit where
  "example_node_failing =
     (example_node ''Relu'' [])\<lparr>Inputs := [example_io ''weights'', example_io ''unshaped'',
                                         example_io ''data'']\<rparr>"

definition example_builder :: BaseOpBuilder where
  "example_builder = \<lparr>op_builder_type = ''SimpleOpBuilder'', output_count = 1\<rparr>"

definition example_show_float :: "float32 \<Rightarrow> string" where
  "example_show_float f = ''<float>''"

definition example_Qnn_Tensor_t :: "Qnn_DataType_t \<Rightarrow> Qnn_Tensor_t" where
  "example_Qnn_Tensor_t data_type =
     \<lparr>t_id = 1, t_type = QNN_TENSOR_TYPE_NATIVE, t_dataFormat = 0, t_dataType = data_type,
      t_maxDimensions = [2, 3], t_memType = QNN_TENSORMEMTYPE_RAW,
      t_clientBuf = \<lparr>data = [7, 8]\<rparr>,
      t_quantizeParams = QNN_QUANTIZE_PARAMS_INIT example_env\<rparr>"

definition example_Qnn_Param_t :: "Qnn_DataType_t \<Rightarrow> Qnn_Param_t" where
  "example_Qnn_Param_t data_type =
     \<lparr>paramType = QNN_PARAMTYPE_SCALAR, p_name = ''axis'',
      scalarParam = (QNN_SCALAR_INIT example_env)\<lparr>dataType := data_type, uint32Value := 3\<rparr>,
      tensorParam = example_Qnn_Tensor_t QNN_DATATYPE_FLOAT_32\<rparr>"

definition example_Qnn_OpConfig_t :: "Qnn_DataType_t \<Rightarrow> Qnn_OpConfig_t" where
  "example_Qnn_OpConfig_t data_type =
     \<lparr>c_name = ''node'', packageName = ''qti.aisw'', typeName = ''ArgMax'',
      params = [example_Qnn_Param_t QNN_DATATYPE_UINT_32],
      inputTensors = [example_Qnn_Tensor_t QNN_DATATYPE_FLOAT_32],
      outputTensors = [example_Qnn_Tensor_t data_type]\<rparr>"

lemmas example_defs = example_env_def example_wrapper_def example_io_def example_node_def
  example_builder_def

lemmas pipeline_defs =
  ProcessOutputs_def ProcessOutputs_body_def AddNode_def QnnContainsTensor_def
  IsGraphOutput_def IsInitializerInput_def NodeAttrHelper_Get_def ProcessAxisAttribute_def
  ArgMaxMinOpBuilder_ProcessAttributesAndOutputs_def ArgMaxMinOpBuilder_def

section \<open>Properties\<close>

subsection \<open>GetDataSize\<close>

lemma uint_foldl_mult:
  "uint (foldl (\<lambda>acc d. acc * d) (a :: uint32_t) dims) =
     (uint a * prod_list (map uint dims)) mod 2 ^ 32"
proof (induction dims arbitrary: a)
  case Nil
  show ?case using uint_idem [of a] by simp
next
  case (Cons d ds)
  have "uint (foldl (\<lambda>acc d. acc * d) (a * d) ds) =
          (uint (a * d) * prod_list (map uint ds)) mod 2 ^ 32"
    by (rule Cons.IH)
  also have "\<dots> = ((uint a * uint d) mod 2 ^ 32 * prod_list (map uint ds)) mod 2 ^ 32"
    by (simp add: uint_word_ariths)
  also have "\<dots> = (uint a * uint d * prod_list (map uint ds)) mod 2 ^ 32"
    by (simp add: mod_mult_left_eq)
  finally show ?case by (simp add: mult.assoc)
qed

lemma sint_ucast_32_64: "sint (ucast (w :: uint32_t) :: int64_t) = uint w"
proof -
  have "uint w < 2 ^ 32" using uint_bounded [of w] by simp
  then have "uint w < 2 ^ 63" by simp
  moreover have "(0::int) \<le> uint w"
    by (rule uint_nonnegative)
  ultimately have "signed_take_bit 63 (uint w) = uint w"
    unfolding signed_take_bit_int_eq_self_iff by linarith
  then show ?thesis by (simp add: signed_ucast_eq)
qed

text \<open>
  C9. \<open>GetDataSize\<close> returns 0 for the empty dimension list. For a non-empty list it returns
  the product of the dimensions reduced modulo \<open>2^32\<close> (the product is computed in
  \<open>uint32_t\<close> and then widened to the signed 64-bit result), so a product of at least
  \<open>2^32\<close> is never returned as it is.
\<close>

theorem GetDataSize_mod_2_32:
  "GetDataSize [] = 0 \<and>
   (dims \<noteq> [] \<longrightarrow> sint (GetDataSize dims) = prod_list (map uint dims) mod 2 ^ 32) \<and>
   (2 ^ 32 \<le> prod_list (map uint dims) \<longrightarrow>
      sint (GetDataSize dims) \<noteq> prod_list (map uint dims))"
proof (intro conjI impI)
  show "GetDataSize [] = 0" by (simp add: GetDataSize_def)
next
  assume "dims \<noteq> []"
  then show "sint (GetDataSize dims) = prod_list (map uint dims) mod 2 ^ 32"
    by (simp add: GetDataSize_def sint_ucast_32_64 uint_foldl_mult)
next
  assume big: "2 ^ 32 \<le> prod_list (map uint dims)"
  then have ne: "dims \<noteq> []" by auto
  have "sint (GetDataSize dims) = prod_list (map uint dims) mod 2 ^ 32"
    using ne by (simp add: GetDataSize_def sint_ucast_32_64 uint_foldl_mult)
  moreover have "prod_list (map uint dims) mod 2 ^ 32 < (2 ^ 32 :: int)"
    by simp
  ultimately show "sint (GetDataSize dims) \<noteq> prod_list (map uint dims)"
    using big by linarith
qed

theorem GetDataSize_mod_2_32_witness:
  "GetDataSize [] = 0 \<and> sint (GetDataSize [3, 4]) = 12 \<and>
   sint (GetDataSize [65536, 65536]) = 0 \<and>
   sint (GetDataSize [65536, 65537]) = 65536"
  using GetDataSize_mod_2_32 [of "[3, 4]"] GetDataSize_mod_2_32 [of "[65536, 65536]"]
    GetDataSize_mod_2_32 [of "[65536, 65537]"]
  by simp

subsection \<open>OnnxDataTypeToQnnDataType\<close>

text \<open>
  C2. For every portable element type \<open>t\<close>, the quantized and the plain mapping give the
  same result unless \<open>t\<close> is an integer type below 64 bits. The 64-bit integer types, the
  boolean type and the floating-point types FLOAT16 and FLOAT are mapped, to the same
  accelerator type, by both (DOUBLE and BFLOAT16, like every other type, are mapped by
  neither). On the integer types below 64 bits the quantized table gives a fixed-point
  accelerator type and the plain table does not.
\<close>

theorem quantized_plain_agree:
  "(t \<notin> set sub_64_bit_integer_types \<longrightarrow>
      OnnxDataTypeToQnnDataType t True = OnnxDataTypeToQnnDataType t False) \<and>
   (t \<in> set [TensorProto_DataType_INT64, TensorProto_DataType_UINT64,
              TensorProto_DataType_BOOL, TensorProto_DataType_FLOAT16,
              TensorProto_DataType_FLOAT] \<longrightarrow>
      (\<exists>q. OnnxDataTypeToQnnDataType t True = Some q \<and>
           OnnxDataTypeToQnnDataType t False = Some q)) \<and>
   (t \<in> set sub_64_bit_integer_types \<longrightarrow>
      (\<exists>q p. OnnxDataTypeToQnnDataType t True = Some q \<and> is_fixed_point q \<and>
             OnnxDataTypeToQnnDataType t False = Some p \<and> \<not> is_fixed_point p))"
  by (auto simp: OnnxDataTypeToQnnDataType_def do_type_mapping_def
      onnx_to_qnn_data_type_def onnx_to_qnn_data_type_quantized_def
      sub_64_bit_integer_types_def is_fixed_point_def TensorProto_DataType_defs)

theorem quantized_plain_agree_witness:
  "OnnxDataTypeToQnnDataType TensorProto_DataType_INT64 True =
     OnnxDataTypeToQnnDataType TensorProto_DataType_INT64 False \<and>
   OnnxDataTypeToQnnDataType TensorProto_DataType_DOUBLE True =
     OnnxDataTypeToQnnDataType TensorProto_DataType_DOUBLE False \<and>
   (\<exists>q. OnnxDataTypeToQnnDataType TensorProto_DataType_BOOL True = Some q \<and>
        OnnxDataTypeToQnnDataType TensorProto_DataType_BOOL False = Some q) \<and>
   (\<exists>q p. OnnxDataTypeToQnnDataType TensorProto_DataType_UINT8 True = Some q \<and>
          is_fixed_point q \<and>
          OnnxDataTypeToQnnDataType TensorProto_DataType_UINT8 False = Some p \<and>
          \<not> is_fixed_point p)"
  using quantized_plain_agree [of TensorProto_DataType_INT64]
    quantized_plain_agree [of TensorProto_DataType_DOUBLE]
    quantized_plain_agree [of TensorProto_DataType_BOOL]
    quantized_plain_agree [of TensorProto_DataType_UINT8]
  by (auto simp: sub_64_bit_integer_types_def TensorProto_DataType_defs)

subsection \<open>Signed 32-bit arithmetic\<close>

lemma sint_bounds_32: "- (2 ^ 31) \<le> sint (a :: int32_t) \<and> sint a < 2 ^ 31"
  using sint_ge [of a] sint_lt [of a] by simp

lemma sint_of_nat_32:
  assumes "n < 2 ^ 31"
  shows "sint (of_nat n :: int32_t) = int n"
proof -
  have "int n < 2 ^ 31" using assms by (simp add: of_nat_less_iff [of n "2 ^ 31", simplified])
  moreover have "(0::int) \<le> int n" by simp
  ultimately have "signed_take_bit 31 (int n) = int n"
    unfolding signed_take_bit_int_eq_self_iff by linarith
  then show ?thesis by (simp add: signed_of_nat)
qed

lemma sint_add_32:
  assumes "- (2 ^ 31) \<le> sint (a :: int32_t) + sint (b :: int32_t)"
    and "sint a + sint b < 2 ^ 31"
  shows "sint (a + b) = sint a + sint b"
proof -
  have "signed_take_bit 31 (sint a + sint b) = sint a + sint b"
    unfolding signed_take_bit_int_eq_self_iff using assms by linarith
  then show ?thesis by (simp add: sint_word_add)
qed

lemma uint_eq_sint_32:
  assumes "0 \<le> sint (v :: int32_t)"
  shows "uint v = sint v"
proof -
  have "sint v < 2 ^ 32" using sint_bounds_32 [of v] by simp
  then have "take_bit 32 (sint v) = sint v"
    using assms by (simp add: take_bit_int_eq_self)
  then show ?thesis by (simp add: uint_sint)
qed

text \<open>The normalized axis, read as a signed number, when the rank fits \<open>int32_t\<close>.\<close>

lemma normalized_axis:
  assumes "n < 2 ^ 31"
  shows "sint (if sint (a :: int32_t) < 0 then a + of_nat n else a) =
         (if sint a < 0 then sint a + int n else sint a)"
proof (cases "sint a < 0")
  case True
  have r: "sint (of_nat n :: int32_t) = int n" by (rule sint_of_nat_32 [OF assms])
  have "int n < 2 ^ 31" using r sint_bounds_32 [of "of_nat n"] by simp
  then have "sint (a + of_nat n) = sint a + sint (of_nat n :: int32_t)"
    using True r sint_bounds_32 [of a] by (intro sint_add_32) simp_all
  then show ?thesis using True r by simp
next
  case False
  then show ?thesis by simp
qed

subsection \<open>ProcessAxisAttribute\<close>

lemma ProcessAxisAttribute_Inr:
  assumes "ProcessAxisAttribute env w node_unit node_params default_axis_value = Inr (ps, v)"
  shows "0 \<le> sint v \<and>
    ps = node_params @
      [ScalarParam (qnn_def_axis env)
        (if OpType node_unit = ''Gather''
         then (QNN_SCALAR_INIT env)\<lparr>dataType := QNN_DATATYPE_INT_32, int32Value := v\<rparr>
         else (QNN_SCALAR_INIT env)\<lparr>dataType := QNN_DATATYPE_UINT_32, uint32Value := v\<rparr>)]"
  using assms unfolding ProcessAxisAttribute_def
  by (auto simp: Let_def split: list.splits option.splits if_splits)

lemma example_Gather:
  "ProcessAxisAttribute example_env example_wrapper
     (example_node ''Gather'' [(''axis'', - 2)]) [] 0 =
   Inr ([ScalarParam ''axis''
          ((QNN_SCALAR_INIT example_env)\<lparr>dataType := QNN_DATATYPE_INT_32, int32Value := 2\<rparr>)], 2)"
  by (simp add: ProcessAxisAttribute_def example_defs NodeAttrHelper_Get_def Let_def)

lemma example_ArgMax:
  "ProcessAxisAttribute example_env example_wrapper
     (example_node ''ArgMax'' [(''axis'', - 1)]) [] 0 =
   Inr ([ScalarParam ''axis''
          ((QNN_SCALAR_INIT example_env)\<lparr>dataType := QNN_DATATYPE_UINT_32, uint32Value := 3\<rparr>)], 3)"
  by (simp add: ProcessAxisAttribute_def example_defs NodeAttrHelper_Get_def Let_def)

text \<open>
  C1. Let the first input have a shape of rank \<open>R\<close> with \<open>1 \<le> R\<close> (and \<open>R\<close> within
  \<open>int32_t\<close>), and let \<open>a\<close> be the signed value of the axis attribute, the caller's default
  when the attribute is absent. For \<open>a\<close> in \<open>[-R, R-1]\<close> \<open>ProcessAxisAttribute\<close> succeeds
  and hands back, as the new \<open>default_axis_value\<close>, the normalized axis: \<open>a + R\<close> when
  \<open>a < 0\<close> and \<open>a\<close> otherwise, a value in \<open>[0, R-1]\<close>. For \<open>a\<close> outside \<open>[-R, R-1]\<close>
  the build fails, with the exception of \<open>ORT_ENFORCE\<close>. Axis \<open>-1\<close> on a rank-4 input
  normalizes to 3.
\<close>

theorem ProcessAxisAttribute_normalizes:
  assumes inputs: "Inputs node_unit = input0 # rest"
    and shape: "GetOnnxShape env w (node_arg input0) = Some input_shape"
    and R: "R = int (length input_shape)" "1 \<le> R" "R < 2 ^ 31"
    and a: "a = sint (NodeAttrHelper_Get node_unit ''axis'' default_axis_value)"
  shows
    "(attributes node_unit ''axis'' = None \<longrightarrow> a = sint default_axis_value) \<and>
     (- R \<le> a \<and> a \<le> R - 1 \<longrightarrow>
        (\<exists>ps v. ProcessAxisAttribute env w node_unit node_params default_axis_value = Inr (ps, v) \<and>
           sint v = (if a < 0 then a + R else a) \<and> 0 \<le> sint v \<and> sint v \<le> R - 1)) \<and>
     (a < - R \<or> R - 1 < a \<longrightarrow>
        ProcessAxisAttribute env w node_unit node_params default_axis_value =
          Inl (EXCEPTION ''QNN requires axis range [0, rank-1].'')) \<and>
     (R = 4 \<and> a = - 1 \<longrightarrow>
        (\<exists>ps. ProcessAxisAttribute env w node_unit node_params default_axis_value = Inr (ps, 3)))"
proof -
  define x where "x = NodeAttrHelper_Get node_unit ''axis'' default_axis_value"
  define x' where "x' = (if sint x < 0 then x + of_nat (length input_shape) else x)"
  have len: "length input_shape < 2 ^ 31"
    using R by (simp add: of_nat_less_iff [of "length input_shape" "2 ^ 31", simplified])
  have r: "sint (of_nat (length input_shape) :: int32_t) = R"
    using sint_of_nat_32 [OF len] R by simp
  have ax: "a = sint x" by (simp add: a x_def)
  have n: "sint x' = (if a < 0 then a + R else a)"
    unfolding x'_def ax R(1) by (rule normalized_axis [OF len])
  have run: "ProcessAxisAttribute env w node_unit node_params default_axis_value =
      (if \<not> (0 \<le> sint x' \<and> sint x' < R)
       then Inl (EXCEPTION ''QNN requires axis range [0, rank-1].'')
       else Inr (node_params @
              [ScalarParam (qnn_def_axis env)
                (if OpType node_unit = ''Gather''
                 then (QNN_SCALAR_INIT env)\<lparr>dataType := QNN_DATATYPE_INT_32, int32Value := x'\<rparr>
                 else (QNN_SCALAR_INIT env)\<lparr>dataType := QNN_DATATYPE_UINT_32, uint32Value := x'\<rparr>)],
              x'))"
    unfolding ProcessAxisAttribute_def x'_def x_def
    by (simp add: inputs shape r Let_def)
  have default: "attributes node_unit ''axis'' = None \<longrightarrow> a = sint default_axis_value"
    by (simp add: a NodeAttrHelper_Get_def)
  have inside: "- R \<le> a \<and> a \<le> R - 1 \<longrightarrow>
      (\<exists>ps v. ProcessAxisAttribute env w node_unit node_params default_axis_value = Inr (ps, v) \<and>
         sint v = (if a < 0 then a + R else a) \<and> 0 \<le> sint v \<and> sint v \<le> R - 1)"
  proof
    assume "- R \<le> a \<and> a \<le> R - 1"
    then have ok: "0 \<le> sint x' \<and> sint x' < R"
      using n by (auto split: if_splits)
    then show "\<exists>ps v. ProcessAxisAttribute env w node_unit node_params default_axis_value = Inr (ps, v) \<and>
         sint v = (if a < 0 then a + R else a) \<and> 0 \<le> sint v \<and> sint v \<le> R - 1"
      using n by (simp add: run)
  qed
  have outside: "a < - R \<or> R - 1 < a \<longrightarrow>
      ProcessAxisAttribute env w node_unit node_params default_axis_value =
        Inl (EXCEPTION ''QNN requires axis range [0, rank-1].'')"
  proof
    assume "a < - R \<or> R - 1 < a"
    then have "\<not> (0 \<le> sint x' \<and> sint x' < R)"
      using n by (auto split: if_splits)
    then show "ProcessAxisAttribute env w node_unit node_params default_axis_value =
        Inl (EXCEPTION ''QNN requires axis range [0, rank-1].'')"
      by (simp add: run)
  qed
  have scenario: "R = 4 \<and> a = - 1 \<longrightarrow>
      (\<exists>ps. ProcessAxisAttribute env w node_unit node_params default_axis_value = Inr (ps, 3))"
  proof
    assume h: "R = 4 \<and> a = - 1"
    then have "sint x' = sint (3 :: int32_t)" using n by simp
    then have "x' = 3" by (simp only: signed_word_eqI)
    moreover have "0 \<le> sint x' \<and> sint x' < R" using n h by simp
    ultimately show "\<exists>ps. ProcessAxisAttribute env w node_unit node_params default_axis_value = Inr (ps, 3)"
      by (simp add: run)
  qed
  show ?thesis using default inside outside scenario by blast
qed

theorem ProcessAxisAttribute_normalizes_witness:
  "(\<exists>ps. ProcessAxisAttribute example_env example_wrapper
            (example_node ''ArgMax'' [(''axis'', - 1)]) [] 0 = Inr (ps, 3)) \<and>
   ProcessAxisAttribute example_env example_wrapper
     (example_node ''ArgMax'' [(''axis'', 4)]) [] 0 =
     Inl (EXCEPTION ''QNN requires axis range [0, rank-1].'') \<and>
   ProcessAxisAttribute example_env example_wrapper
     (example_node ''ArgMax'' [(''axis'', - 5)]) [] 0 =
     Inl (EXCEPTION ''QNN requires axis range [0, rank-1].'') \<and>
   (\<exists>ps v. ProcessAxisAttribute example_env example_wrapper
            (example_node ''ArgMax'' []) [] 0 = Inr (ps, v) \<and> sint v = 0)"
proof -
  have i: "Inputs (example_node ''ArgMax'' attrs) =
      example_io ''data'' # [example_io ''indices'', example_io ''weights'']" for attrs
    by (simp add: example_node_def)
  have s: "GetOnnxShape example_env example_wrapper (node_arg (example_io ''data'')) =
      Some [1, 3, 8, 8]"
    by (simp add: example_env_def example_io_def)
  have R: "(4::int) = int (length [1, 3, 8, 8 :: uint32_t])" "(1::int) \<le> 4" "(4::int) < 2 ^ 31"
    by simp_all
  have a1: "- 1 = sint (NodeAttrHelper_Get (example_node ''ArgMax'' [(''axis'', - 1)]) ''axis'' 0)"
    and a2: "4 = sint (NodeAttrHelper_Get (example_node ''ArgMax'' [(''axis'', 4)]) ''axis'' 0)"
    and a3: "- 5 = sint (NodeAttrHelper_Get (example_node ''ArgMax'' [(''axis'', - 5)]) ''axis'' 0)"
    and a4: "0 = sint (NodeAttrHelper_Get (example_node ''ArgMax'' []) ''axis'' 0)"
    by (simp_all add: NodeAttrHelper_Get_def example_node_def)
  show ?thesis
    using ProcessAxisAttribute_normalizes [OF i s R a1, where node_params = "[]"]
      ProcessAxisAttribute_normalizes [OF i s R a2, where node_params = "[]"]
      ProcessAxisAttribute_normalizes [OF i s R a3, where node_params = "[]"]
      ProcessAxisAttribute_normalizes [OF i s R a4, where node_params = "[]"]
    by auto
qed

text \<open>
  C5. When the axis attribute passes normalization, exactly one parameter is appended, the
  scalar named \<open>qnn_def::axis\<close>. For the op type \<open>Gather\<close> it has the signed 32-bit data
  type and carries the normalized axis in \<open>int32Value\<close>; for every other op type it has the
  unsigned 32-bit data type and carries the same value in \<open>uint32Value\<close> (read unsigned, it
  is the normalized axis read signed).
\<close>

theorem axis_param_scalar:
  assumes "ProcessAxisAttribute env w node_unit node_params default_axis_value = Inr (ps, v)"
  shows "\<exists>s. ps = node_params @ [ScalarParam (qnn_def_axis env) s] \<and>
     (if OpType node_unit = ''Gather''
      then dataType s = QNN_DATATYPE_INT_32 \<and> int32Value s = v
      else dataType s = QNN_DATATYPE_UINT_32 \<and> uint32Value s = v \<and>
           uint (uint32Value s) = sint v)"
proof -
  from ProcessAxisAttribute_Inr [OF assms] have nonneg: "0 \<le> sint v" and
    ps: "ps = node_params @
      [ScalarParam (qnn_def_axis env)
        (if OpType node_unit = ''Gather''
         then (QNN_SCALAR_INIT env)\<lparr>dataType := QNN_DATATYPE_INT_32, int32Value := v\<rparr>
         else (QNN_SCALAR_INIT env)\<lparr>dataType := QNN_DATATYPE_UINT_32, uint32Value := v\<rparr>)]"
    by simp_all
  show ?thesis
    using ps uint_eq_sint_32 [OF nonneg] by (cases "OpType node_unit = ''Gather''") simp_all
qed

theorem axis_param_scalar_witness:
  "(\<exists>s. ProcessAxisAttribute example_env example_wrapper
          (example_node ''Gather'' [(''axis'', - 2)]) [] 0 = Inr ([ScalarParam ''axis'' s], 2) \<and>
        dataType s = QNN_DATATYPE_INT_32 \<and> int32Value s = 2) \<and>
   (\<exists>s. ProcessAxisAttribute example_env example_wrapper
          (example_node ''ArgMax'' [(''axis'', - 1)]) [] 0 = Inr ([ScalarParam ''axis'' s], 3) \<and>
        dataType s = QNN_DATATYPE_UINT_32 \<and> uint32Value s = 3 \<and> uint (uint32Value s) = 3)"
  using axis_param_scalar [OF example_Gather] axis_param_scalar [OF example_ArgMax]
    example_Gather example_ArgMax
  by (simp add: example_env_def)

subsection \<open>The default attributes stage\<close>

text \<open>
  C7. The default \<open>ProcessAttributesAndOutputs\<close> of the base builder returns success and
  the accumulator as it was, with no operator and no output tensor appended, when the list
  of resolved input names is empty; otherwise it is \<open>ProcessOutputs\<close> with an empty
  parameter list.
\<close>

theorem default_stage:
  "(input_names = [] \<longrightarrow>
      BaseOpBuilder_ProcessAttributesAndOutputs env builder w node_unit input_names
        is_quantized_model do_op_validation = Inr w) \<and>
   (input_names \<noteq> [] \<longrightarrow>
      BaseOpBuilder_ProcessAttributesAndOutputs env builder w node_unit input_names
        is_quantized_model do_op_validation =
      ProcessOutputs env builder w node_unit input_names [] is_quantized_model do_op_validation)"
  by (cases input_names)
     (auto simp: BaseOpBuilder_ProcessAttributesAndOutputs_def split: sum.splits)

theorem default_stage_witness:
  "BaseOpBuilder_ProcessAttributesAndOutputs example_env example_builder example_wrapper
     (example_node ''Relu'' []) [] False False = Inr example_wrapper \<and>
   BaseOpBuilder_ProcessAttributesAndOutputs example_env example_builder example_wrapper
     (example_node ''Relu'' []) [''data''] False False =
   ProcessOutputs example_env example_builder example_wrapper
     (example_node ''Relu'' []) [''data''] [] False False"
  using default_stage [of "[]" example_env example_builder example_wrapper
      "example_node ''Relu'' []" False False]
    default_stage [of "[''data'']" example_env example_builder example_wrapper
      "example_node ''Relu'' []" False False]
  by simp

subsection \<open>The loops over inputs and outputs\<close>

lemma ProcessInputs_body_present:
  assumes "QnnContainsTensor w (Name (node_arg input))"
  shows "ProcessInputs_body env is_quantized_model input (w, input_names, quantize_param, qnn_data_type) =
         Inr (w, input_names @ [Name (node_arg input)], quantize_param, qnn_data_type)"
  using assms by (simp add: ProcessInputs_body_def)

lemma ProcessInputs_body_absent:
  assumes "\<not> QnnContainsTensor w (Name (node_arg input))"
    and "ProcessInputs_body env is_quantized_model input (w, input_names, quantize_param, qnn_data_type) =
         Inr (w', input_names', quantize_param', qnn_data_type')"
  shows "input_names' = input_names @ [Name (node_arg input)] \<and>
     (\<exists>t. w' = w\<lparr>model_tensors := (model_tensors w)(Name (node_arg input) \<mapsto> t)\<rparr> \<and>
          tw_name t = Name (node_arg input) \<and>
          tw_type t = (if IsInitializerInput w (Name (node_arg input))
                       then QNN_TENSOR_TYPE_STATIC else QNN_TENSOR_TYPE_APP_WRITE))"
  using assms unfolding ProcessInputs_body_def AddTensor_def
  by (auto simp: Let_def split: sum.splits option.splits if_splits prod.splits)

lemma ProcessInputs_loop_all_present:
  assumes "\<forall>i\<in>set inputs. QnnContainsTensor w (Name (node_arg i))"
  shows "ProcessInputs_loop env is_quantized_model inputs (w, input_names, quantize_param, qnn_data_type) =
         Inr (w, input_names @ map (\<lambda>i. Name (node_arg i)) inputs, quantize_param, qnn_data_type)"
  using assms
  by (induction inputs arbitrary: input_names) (simp_all add: ProcessInputs_body_present)

lemma ProcessInputs_loop_Inr:
  assumes "ProcessInputs_loop env is_quantized_model inputs
             (w, input_names, quantize_param, qnn_data_type) =
           Inr (w', input_names', quantize_param', qnn_data_type')"
  shows "input_names' = input_names @ map (\<lambda>i. Name (node_arg i)) inputs \<and>
     w' = w\<lparr>model_tensors := model_tensors w'\<rparr> \<and>
     (\<forall>n. QnnContainsTensor w n \<longrightarrow> model_tensors w' n = model_tensors w n) \<and>
     (\<forall>n t. \<not> QnnContainsTensor w n \<and> model_tensors w' n = Some t \<longrightarrow>
        tw_name t = n \<and>
        tw_type t = (if IsInitializerInput w n then QNN_TENSOR_TYPE_STATIC
                     else QNN_TENSOR_TYPE_APP_WRITE)) \<and>
     (\<forall>i\<in>set inputs. QnnContainsTensor w' (Name (node_arg i))) \<and>
     (\<forall>n. \<not> QnnContainsTensor w n \<and> QnnContainsTensor w' n \<longrightarrow>
        n \<in> set (map (\<lambda>i. Name (node_arg i)) inputs))"
  using assms
proof (induction inputs arbitrary: w input_names quantize_param qnn_data_type)
  case Nil
  then show ?case by (auto simp: QnnContainsTensor_def)
next
  case (Cons input inputs)
  from Cons.prems obtain w1 names1 qp1 dt1 where
    body: "ProcessInputs_body env is_quantized_model input
             (w, input_names, quantize_param, qnn_data_type) = Inr (w1, names1, qp1, dt1)"
    and rest: "ProcessInputs_loop env is_quantized_model inputs (w1, names1, qp1, dt1) =
             Inr (w', input_names', quantize_param', qnn_data_type')"
    by (auto split: sum.splits)
  note IH = Cons.IH [OF rest]
  show ?case
  proof (cases "QnnContainsTensor w (Name (node_arg input))")
    case True
    with body have "w1 = w" "names1 = input_names @ [Name (node_arg input)]"
      by (simp_all add: ProcessInputs_body_present)
    with IH True show ?thesis
      by (auto simp: QnnContainsTensor_def)
  next
    case False
    from ProcessInputs_body_absent [OF False body] obtain t where
      names1: "names1 = input_names @ [Name (node_arg input)]" and
      w1: "w1 = w\<lparr>model_tensors := (model_tensors w)(Name (node_arg input) \<mapsto> t)\<rparr>" and
      t: "tw_name t = Name (node_arg input)"
         "tw_type t = (if IsInitializerInput w (Name (node_arg input))
                       then QNN_TENSOR_TYPE_STATIC else QNN_TENSOR_TYPE_APP_WRITE)"
      by blast
    have c1: "input_names' = input_names @ map (\<lambda>i. Name (node_arg i)) (input # inputs)"
      using IH names1 by simp
    have c2: "w' = w\<lparr>model_tensors := model_tensors w'\<rparr>"
    proof -
      have "w' = w1\<lparr>model_tensors := model_tensors w'\<rparr>" using IH by blast
      then show ?thesis by (simp add: w1)
    qed
    have keep: "\<forall>n. QnnContainsTensor w1 n \<longrightarrow> model_tensors w' n = model_tensors w1 n"
      using IH by blast
    have c3: "\<forall>n. QnnContainsTensor w n \<longrightarrow> model_tensors w' n = model_tensors w n"
    proof (intro allI impI)
      fix n assume n: "QnnContainsTensor w n"
      then have "n \<noteq> Name (node_arg input)" using False by auto
      moreover have "QnnContainsTensor w1 n" using n by (simp add: w1 QnnContainsTensor_def)
      ultimately show "model_tensors w' n = model_tensors w n"
        using keep by (simp add: w1)
    qed
    have new: "\<forall>n t. \<not> QnnContainsTensor w1 n \<and> model_tensors w' n = Some t \<longrightarrow>
        tw_name t = n \<and>
        tw_type t = (if IsInitializerInput w1 n then QNN_TENSOR_TYPE_STATIC
                     else QNN_TENSOR_TYPE_APP_WRITE)"
      using IH by blast
    have c4: "\<forall>n t. \<not> QnnContainsTensor w n \<and> model_tensors w' n = Some t \<longrightarrow>
        tw_name t = n \<and>
        tw_type t = (if IsInitializerInput w n then QNN_TENSOR_TYPE_STATIC
                     else QNN_TENSOR_TYPE_APP_WRITE)"
    proof (intro allI impI)
      fix n t'
      assume h: "\<not> QnnContainsTensor w n \<and> model_tensors w' n = Some t'"
      show "tw_name t' = n \<and>
        tw_type t' = (if IsInitializerInput w n then QNN_TENSOR_TYPE_STATIC
                      else QNN_TENSOR_TYPE_APP_WRITE)"
      proof (cases "n = Name (node_arg input)")
        case True
        have "QnnContainsTensor w1 n" using True by (simp add: w1 QnnContainsTensor_def)
        then have "model_tensors w' n = model_tensors w1 n" using keep by blast
        then have "t' = t" using h True by (simp add: w1)
        then show ?thesis using t True by simp
      next
        case neq: False
        then have "\<not> QnnContainsTensor w1 n" using h by (simp add: w1 QnnContainsTensor_def)
        then show ?thesis using new h by (simp add: w1 IsInitializerInput_def)
      qed
    qed
    have c5: "\<forall>i\<in>set (input # inputs). QnnContainsTensor w' (Name (node_arg i))"
    proof -
      have "QnnContainsTensor w1 (Name (node_arg input))"
        by (simp add: w1 QnnContainsTensor_def)
      then have "QnnContainsTensor w' (Name (node_arg input))"
        using keep by (simp add: QnnContainsTensor_def)
      then show ?thesis using IH by simp
    qed
    have from_rest: "\<forall>n. \<not> QnnContainsTensor w1 n \<and> QnnContainsTensor w' n \<longrightarrow>
        n \<in> set (map (\<lambda>i. Name (node_arg i)) inputs)"
      using IH by blast
    have c6: "\<forall>n. \<not> QnnContainsTensor w n \<and> QnnContainsTensor w' n \<longrightarrow>
        n \<in> set (map (\<lambda>i. Name (node_arg i)) (input # inputs))"
    proof (intro allI impI)
      fix n
      assume h: "\<not> QnnContainsTensor w n \<and> QnnContainsTensor w' n"
      show "n \<in> set (map (\<lambda>i. Name (node_arg i)) (input # inputs))"
      proof (cases "n = Name (node_arg input)")
        case True
        then show ?thesis by simp
      next
        case neq: False
        then have "\<not> QnnContainsTensor w1 n" using h by (simp add: w1 QnnContainsTensor_def)
        then show ?thesis using from_rest h by simp
      qed
    qed
    show ?thesis using c1 c2 c3 c4 c5 c6 by blast
  qed
qed

lemma ProcessInputs_body_Inl:
  assumes "ProcessInputs_body env is_quantized_model input
             (w, input_names, quantize_param, qnn_data_type) = Inl (e, w', input_names')"
  shows "w' = w \<and> \<not> QnnContainsTensor w (Name (node_arg input)) \<and>
     (input_names' = input_names \<or> input_names' = input_names @ [Name (node_arg input)])"
  using assms unfolding ProcessInputs_body_def AddTensor_def
  by (auto simp: Let_def split: sum.splits option.splits if_splits prod.splits)

lemma ProcessInputs_loop_Inl:
  assumes "ProcessInputs_loop env is_quantized_model inputs st = Inl failure"
  shows "\<exists>earlier failing later st1. inputs = earlier @ failing # later \<and>
     ProcessInputs_loop env is_quantized_model earlier st = Inr st1 \<and>
     ProcessInputs_body env is_quantized_model failing st1 = Inl failure"
  using assms
proof (induction inputs arbitrary: st)
  case Nil
  then show ?case by simp
next
  case (Cons input inputs)
  show ?case
  proof (cases "ProcessInputs_body env is_quantized_model input st")
    case (Inl f)
    with Cons.prems have "f = failure" by simp
    with Inl have "input # inputs = [] @ input # inputs \<and>
        ProcessInputs_loop env is_quantized_model [] st = Inr st \<and>
        ProcessInputs_body env is_quantized_model input st = Inl failure"
      by simp
    then show ?thesis by blast
  next
    case (Inr st1)
    with Cons.prems have "ProcessInputs_loop env is_quantized_model inputs st1 = Inl failure"
      by simp
    from Cons.IH [OF this] obtain earlier failing later st2 where
      split: "inputs = earlier @ failing # later" and
      run: "ProcessInputs_loop env is_quantized_model earlier st1 = Inr st2" and
      body: "ProcessInputs_body env is_quantized_model failing st2 = Inl failure"
      by blast
    have "input # inputs = (input # earlier) @ failing # later \<and>
        ProcessInputs_loop env is_quantized_model (input # earlier) st = Inr st2 \<and>
        ProcessInputs_body env is_quantized_model failing st2 = Inl failure"
      using split run body Inr by simp
    then show ?thesis by blast
  qed
qed

lemma ProcessInputs_Inr:
  assumes "ProcessInputs env w node_unit is_quantized_model input_names do_op_validation =
      Inr (w', input_names')"
  shows "\<exists>quantize_param qnn_data_type.
     ProcessInputs_loop env is_quantized_model (Inputs node_unit)
       (w, input_names,
        InitializeQuantizeParam env (QNN_QUANTIZE_PARAMS_INIT env) is_quantized_model,
        QNN_DATATYPE_FLOAT_32) = Inr (w', input_names', quantize_param, qnn_data_type)"
  using assms by (auto simp: ProcessInputs_def Let_def split: sum.splits)

lemma ProcessInputs_Inl:
  assumes "ProcessInputs env w node_unit is_quantized_model input_names do_op_validation =
      Inl (e, w', input_names')"
  shows "\<exists>earlier failing later names1 quantize_param qnn_data_type.
     Inputs node_unit = earlier @ failing # later \<and>
     ProcessInputs_loop env is_quantized_model earlier
       (w, input_names,
        InitializeQuantizeParam env (QNN_QUANTIZE_PARAMS_INIT env) is_quantized_model,
        QNN_DATATYPE_FLOAT_32) = Inr (w', names1, quantize_param, qnn_data_type) \<and>
     \<not> QnnContainsTensor w' (Name (node_arg failing)) \<and>
     (input_names' = names1 \<or> input_names' = names1 @ [Name (node_arg failing)])"
proof -
  from assms have "ProcessInputs_loop env is_quantized_model (Inputs node_unit)
       (w, input_names,
        InitializeQuantizeParam env (QNN_QUANTIZE_PARAMS_INIT env) is_quantized_model,
        QNN_DATATYPE_FLOAT_32) = Inl (e, w', input_names')"
    by (auto simp: ProcessInputs_def Let_def split: sum.splits)
  from ProcessInputs_loop_Inl [OF this] obtain earlier failing later st1 where
    split: "Inputs node_unit = earlier @ failing # later" and
    run: "ProcessInputs_loop env is_quantized_model earlier
       (w, input_names,
        InitializeQuantizeParam env (QNN_QUANTIZE_PARAMS_INIT env) is_quantized_model,
        QNN_DATATYPE_FLOAT_32) = Inr st1" and
    body: "ProcessInputs_body env is_quantized_model failing st1 = Inl (e, w', input_names')"
    by blast
  obtain w1 names1 qp1 dt1 where st1: "st1 = (w1, names1, qp1, dt1)"
    by (cases st1) auto
  from ProcessInputs_body_Inl [OF body [unfolded st1]] have
    "w' = w1" "\<not> QnnContainsTensor w1 (Name (node_arg failing))"
    "input_names' = names1 \<or> input_names' = names1 @ [Name (node_arg failing)]"
    by simp_all
  with split run st1 show ?thesis by blast
qed

lemma ProcessInputs_loop_roles:
  assumes "ProcessInputs_loop env is_quantized_model inputs
             (w, input_names, quantize_param, qnn_data_type) =
           Inr (w', input_names', quantize_param', qnn_data_type')"
  shows "(\<forall>n t. \<not> QnnContainsTensor w n \<and> model_tensors w' n = Some t \<longrightarrow>
        n \<in> set (map (\<lambda>i. Name (node_arg i)) inputs) \<and> tw_name t = n \<and>
        (tw_type t = QNN_TENSOR_TYPE_STATIC \<longleftrightarrow> IsInitializerInput w n) \<and>
        (tw_type t = QNN_TENSOR_TYPE_APP_WRITE \<longleftrightarrow> \<not> IsInitializerInput w n)) \<and>
     (\<forall>i\<in>set inputs. \<not> QnnContainsTensor w (Name (node_arg i)) \<longrightarrow>
        (\<exists>t. model_tensors w' (Name (node_arg i)) = Some t \<and>
             tw_name t = Name (node_arg i) \<and>
             (tw_type t = QNN_TENSOR_TYPE_STATIC \<longleftrightarrow>
                IsInitializerInput w (Name (node_arg i))) \<and>
             (tw_type t = QNN_TENSOR_TYPE_APP_WRITE \<longleftrightarrow>
                \<not> IsInitializerInput w (Name (node_arg i)))))"
proof -
  note inv = ProcessInputs_loop_Inr [OF assms]
  have new: "\<forall>n t. \<not> QnnContainsTensor w n \<and> model_tensors w' n = Some t \<longrightarrow>
        tw_name t = n \<and>
        tw_type t = (if IsInitializerInput w n then QNN_TENSOR_TYPE_STATIC
                     else QNN_TENSOR_TYPE_APP_WRITE)"
    using inv by blast
  have names: "\<forall>n. \<not> QnnContainsTensor w n \<and> QnnContainsTensor w' n \<longrightarrow>
        n \<in> set (map (\<lambda>i. Name (node_arg i)) inputs)"
    using inv by blast
  have present: "\<forall>i\<in>set inputs. QnnContainsTensor w' (Name (node_arg i))"
    using inv by blast
  have a: "\<forall>n t. \<not> QnnContainsTensor w n \<and> model_tensors w' n = Some t \<longrightarrow>
        n \<in> set (map (\<lambda>i. Name (node_arg i)) inputs) \<and> tw_name t = n \<and>
        (tw_type t = QNN_TENSOR_TYPE_STATIC \<longleftrightarrow> IsInitializerInput w n) \<and>
        (tw_type t = QNN_TENSOR_TYPE_APP_WRITE \<longleftrightarrow> \<not> IsInitializerInput w n)"
  proof (intro allI impI)
    fix n t
    assume h: "\<not> QnnContainsTensor w n \<and> model_tensors w' n = Some t"
    then have "QnnContainsTensor w' n" by (simp add: QnnContainsTensor_def)
    then have "n \<in> set (map (\<lambda>i. Name (node_arg i)) inputs)" using names h by blast
    moreover have "tw_name t = n \<and>
        tw_type t = (if IsInitializerInput w n then QNN_TENSOR_TYPE_STATIC
                     else QNN_TENSOR_TYPE_APP_WRITE)"
      using new h by blast
    ultimately show "n \<in> set (map (\<lambda>i. Name (node_arg i)) inputs) \<and> tw_name t = n \<and>
        (tw_type t = QNN_TENSOR_TYPE_STATIC \<longleftrightarrow> IsInitializerInput w n) \<and>
        (tw_type t = QNN_TENSOR_TYPE_APP_WRITE \<longleftrightarrow> \<not> IsInitializerInput w n)"
      by simp
  qed
  have b: "\<forall>i\<in>set inputs. \<not> QnnContainsTensor w (Name (node_arg i)) \<longrightarrow>
        (\<exists>t. model_tensors w' (Name (node_arg i)) = Some t \<and>
             tw_name t = Name (node_arg i) \<and>
             (tw_type t = QNN_TENSOR_TYPE_STATIC \<longleftrightarrow>
                IsInitializerInput w (Name (node_arg i))) \<and>
             (tw_type t = QNN_TENSOR_TYPE_APP_WRITE \<longleftrightarrow>
                \<not> IsInitializerInput w (Name (node_arg i))))"
  proof (intro ballI impI)
    fix i
    assume i: "i \<in> set inputs" and absent: "\<not> QnnContainsTensor w (Name (node_arg i))"
    from present i have "QnnContainsTensor w' (Name (node_arg i))" by blast
    then obtain t where t: "model_tensors w' (Name (node_arg i)) = Some t"
      by (auto simp: QnnContainsTensor_def)
    with a absent show "\<exists>t. model_tensors w' (Name (node_arg i)) = Some t \<and>
             tw_name t = Name (node_arg i) \<and>
             (tw_type t = QNN_TENSOR_TYPE_STATIC \<longleftrightarrow>
                IsInitializerInput w (Name (node_arg i))) \<and>
             (tw_type t = QNN_TENSOR_TYPE_APP_WRITE \<longleftrightarrow>
                \<not> IsInitializerInput w (Name (node_arg i)))"
      by blast
  qed
  show ?thesis using a b by blast
qed

lemma ProcessOutputs_body_Inr:
  assumes "ProcessOutputs_body env w is_quantized_model output = Inr t"
  shows "tw_name t = Name (node_arg output) \<and>
     tw_type t = (if IsGraphOutput w (Name (node_arg output)) then QNN_TENSOR_TYPE_APP_READ
                  else QNN_TENSOR_TYPE_NATIVE)"
  using assms unfolding ProcessOutputs_body_def
  by (auto simp: Let_def split: sum.splits option.splits prod.splits)

lemma ProcessOutputs_loop_Inr:
  assumes "ProcessOutputs_loop env w is_quantized_model outputs acc = Inr qnn_outputs"
  shows "\<exists>new. qnn_outputs = acc @ new \<and>
     map tw_name new = map (\<lambda>output. Name (node_arg output)) outputs \<and>
     (\<forall>t\<in>set new. tw_type t = (if IsGraphOutput w (tw_name t) then QNN_TENSOR_TYPE_APP_READ
                                else QNN_TENSOR_TYPE_NATIVE))"
  using assms
proof (induction outputs arbitrary: acc)
  case Nil
  then show ?case by simp
next
  case (Cons first outputs)
  from Cons.prems obtain t where
    body: "ProcessOutputs_body env w is_quantized_model first = Inr t" and
    rest: "ProcessOutputs_loop env w is_quantized_model outputs (acc @ [t]) = Inr qnn_outputs"
    by (auto split: sum.splits)
  from Cons.IH [OF rest] obtain new where
    new: "qnn_outputs = (acc @ [t]) @ new"
      "map tw_name new = map (\<lambda>output. Name (node_arg output)) outputs"
      "\<forall>t\<in>set new. tw_type t = (if IsGraphOutput w (tw_name t) then QNN_TENSOR_TYPE_APP_READ
                                else QNN_TENSOR_TYPE_NATIVE)"
    by blast
  show ?case
    using new ProcessOutputs_body_Inr [OF body]
    by (intro exI [of _ "t # new"]) simp
qed

lemma ProcessOutputs_Inr:
  assumes "ProcessOutputs env builder w node_unit input_names node_params is_quantized_model
     do_op_validation = Inr w'"
  shows "\<exists>qnn_outputs.
     ProcessOutputs_loop env w is_quantized_model
       (take (min (length (Outputs node_unit)) (output_count builder)) (Outputs node_unit)) [] =
       Inr qnn_outputs \<and>
     (if do_op_validation then w' = w
      else w' = w\<lparr>qnn_op_property_list := qnn_op_property_list w @
              [\<lparr>op_node_name = GetNodeName env node_unit,
                op_package_name = qnn_def_package_name env,
                op_node_type = GetQnnOpType env (OpType node_unit),
                op_params = node_params,
                op_input_names = input_names,
                op_outputs = qnn_outputs\<rparr>]\<rparr>)"
  using assms unfolding ProcessOutputs_def AddNode_def
  by (auto simp: Let_def split: sum.splits if_splits)

subsection \<open>The pipeline on the concrete environment\<close>

lemma GetQnnDataType_FLOAT:
  "GetQnnDataType False (Some TensorProto_DataType_FLOAT) =
     Inr (TensorProto_DataType_FLOAT, QNN_DATATYPE_FLOAT_32)"
  by (simp add: GetQnnDataType_def OnnxDataTypeToQnnDataType_def do_type_mapping_def
      onnx_to_qnn_data_type_def TensorProto_DataType_defs)

lemma example_ProcessInputs:
  "ProcessInputs example_env example_wrapper (example_node op_type attrs) False [] val =
     Inr (example_wrapper_inputs, [''data'', ''indices'', ''weights''])"
  by (simp add: ProcessInputs_def ProcessInputs_body_def example_defs example_tensor_def
      example_wrapper_inputs_def QnnContainsTensor_def IsInitializerInput_def AddTensor_def
      GetQnnDataType_FLOAT Let_def)

lemma example_ProcessInputs_failing:
  "ProcessInputs example_env example_wrapper example_node_failing False [] False =
     Inl (FAIL ''Cannot get shape'', example_wrapper_failing, [''weights''])"
  by (simp add: ProcessInputs_def ProcessInputs_body_def example_defs example_tensor_def
      example_node_failing_def example_wrapper_failing_def QnnContainsTensor_def
      IsInitializerInput_def AddTensor_def GetQnnDataType_FLOAT Let_def)

lemma example_failing_registry:
  "QnnContainsTensor example_wrapper_failing ''weights''"
  "\<not> QnnContainsTensor example_wrapper_failing ''unshaped''"
  "\<not> QnnContainsTensor example_wrapper_failing ''data''"
  by (simp_all add: QnnContainsTensor_def example_wrapper_failing_def)

lemma example_ProcessOutputs:
  "ProcessOutputs example_env example_builder example_wrapper_inputs (example_node ''Relu'' [])
     [''data''] [] False False =
   Inr (example_wrapper_inputs\<lparr>qnn_op_property_list :=
     [\<lparr>op_node_name = ''node'', op_package_name = ''qti.aisw'', op_node_type = ''Relu'',
       op_params = [], op_input_names = [''data''],
       op_outputs = [example_tensor ''reduced'' QNN_TENSOR_TYPE_APP_READ [1, 3, 8, 1] []]\<rparr>]\<rparr>)"
  by (simp add: pipeline_defs example_defs example_tensor_def example_wrapper_inputs_def
      GetQnnDataType_FLOAT Let_def)

lemma example_ProcessOutputs_hidden:
  "ProcessOutputs example_env example_builder example_wrapper_inputs example_node_hidden
     [''data''] [] False False =
   Inr (example_wrapper_inputs\<lparr>qnn_op_property_list :=
     [\<lparr>op_node_name = ''node'', op_package_name = ''qti.aisw'', op_node_type = ''Relu'',
       op_params = [], op_input_names = [''data''],
       op_outputs = [example_tensor ''hidden'' QNN_TENSOR_TYPE_NATIVE [1, 3, 8, 1] []]\<rparr>]\<rparr>)"
  by (simp add: pipeline_defs example_defs example_tensor_def example_wrapper_inputs_def
      example_node_hidden_def GetQnnDataType_FLOAT Let_def)

lemma example_graph_outputs:
  "IsGraphOutput example_wrapper_inputs ''reduced''"
  "\<not> IsGraphOutput example_wrapper_inputs ''hidden''"
  by (simp_all add: IsGraphOutput_def example_wrapper_inputs_def example_wrapper_def)

lemma example_registry:
  "\<not> QnnContainsTensor example_wrapper n"
  "IsInitializerInput example_wrapper ''weights''"
  "\<not> IsInitializerInput example_wrapper ''data''"
  "model_tensors example_wrapper_inputs ''weights'' =
     Some (example_tensor ''weights'' QNN_TENSOR_TYPE_STATIC [4] [1, 2, 3, 4])"
  "model_tensors example_wrapper_inputs ''data'' =
     Some (example_tensor ''data'' QNN_TENSOR_TYPE_APP_WRITE [1, 3, 8, 8] [])"
  by (simp_all add: QnnContainsTensor_def IsInitializerInput_def example_wrapper_inputs_def
      example_wrapper_def)

lemma example_outputs:
  "take (min (length (Outputs (example_node op_type attrs))) (output_count example_builder))
     (Outputs (example_node op_type attrs)) = [example_io ''reduced'']"
  "take (min (length (Outputs example_node_hidden)) (output_count example_builder))
     (Outputs example_node_hidden) = [example_io ''hidden'']"
  "Name (node_arg (example_io name)) = name"
  by (simp_all add: example_node_def example_node_hidden_def example_builder_def example_io_def)

lemma example_registry_inputs:
  "\<forall>i\<in>set (Inputs (example_node op_type attrs)).
     QnnContainsTensor example_wrapper_inputs (Name (node_arg i))"
  "QnnContainsTensor example_wrapper_inputs (Name (node_arg (example_io ''data'')))"
  by (simp_all add: example_node_def example_io_def QnnContainsTensor_def
      example_wrapper_inputs_def)

lemma example_input_names:
  "map (\<lambda>i. Name (node_arg i)) (Inputs (example_node op_type attrs)) =
     [''data'', ''indices'', ''weights'']"
  by (simp add: example_node_def example_io_def)

lemma example_axis:
  "ProcessAxisAttribute example_env w (example_node ''ArgMax'' ((''axis'', 2) # attrs)) [] 0 =
   Inr ([ScalarParam ''axis''
          ((QNN_SCALAR_INIT example_env)\<lparr>dataType := QNN_DATATYPE_UINT_32, uint32Value := 2\<rparr>)], 2)"
  by (simp add: ProcessAxisAttribute_def example_defs NodeAttrHelper_Get_def Let_def)

lemma example_select_last_index:
  "NodeAttrHelper_Get (example_node ''ArgMax'' [(''axis'', 7), (''select_last_index'', 1)])
     ''select_last_index'' 0 \<noteq> 0"
  "NodeAttrHelper_Get (example_node ''ArgMax'' [(''axis'', 2), (''select_last_index'', 1)])
     ''select_last_index'' 0 \<noteq> 0"
  "NodeAttrHelper_Get (example_node ''ArgMax'' [(''axis'', 2)]) ''select_last_index'' 0 = 0"
  by (simp_all add: NodeAttrHelper_Get_def example_node_def)

lemma example_ArgMax_run:
  assumes "attrs = [(''axis'', 2), (''keepdims'', 0)] \<or> attrs = [(''axis'', 2), (''keepdims'', 5)] \<or>
      attrs = [(''axis'', 2)]"
  shows "\<exists>w'. ArgMaxMinOpBuilder_ProcessAttributesAndOutputs example_env ArgMaxMinOpBuilder
     example_wrapper_inputs (example_node ''ArgMax'' attrs)
     [''data'', ''indices'', ''weights''] False False = Inr w'"
  using assms
  by (auto simp: pipeline_defs example_defs example_wrapper_inputs_def
      GetQnnDataType_FLOAT Let_def)

lemma example_keepdims:
  "NodeAttrHelper_Get (example_node ''ArgMax'' [(''axis'', 2), (''keepdims'', 0)]) ''keepdims'' 1 = 0"
  "NodeAttrHelper_Get (example_node ''ArgMax'' [(''axis'', 2), (''keepdims'', 5)]) ''keepdims'' 1 = 5"
  "attributes (example_node ''ArgMax'' [(''axis'', 2)]) ''keepdims'' = None"
  by (simp_all add: NodeAttrHelper_Get_def example_node_def)

lemma example_keepdims_absent:
  "NodeAttrHelper_Get (example_node ''ArgMax'' [(''axis'', 2)]) ''keepdims'' 1 = 1"
  "qnn_def_keep_dims example_env = ''keep_dims''"
  by (simp_all add: NodeAttrHelper_Get_def example_node_def example_env_def)

subsection \<open>Tensor roles\<close>

text \<open>
  C3. \<open>ProcessInputs\<close>, whether it returns OK or fails at some input, leaves in the
  accumulator only new tensors (names absent from the registry before the call) that are
  named after an input of the node-unit, and each of them has the role STATIC if and only if
  its name is an initializer of the portable graph and the role APP\_WRITE if and only if it
  is not. When it returns OK, every input that was absent before is registered with that
  role; when it fails, the inputs before the failing one that were absent before are
  registered with that role and stay so, and the failing input is not registered. When
  \<open>ProcessOutputs\<close> succeeds, it has built one descriptor per node-unit output (up to the
  builder's output count), named after it, with the role APP\_READ if and only if the name is
  a declared graph output and NATIVE if and only if it is not; a persisting build appends the
  operator that carries these descriptors.
\<close>

theorem tensor_roles:
  "(ProcessInputs env w node_unit is_quantized_model input_names do_op_validation =
      Inr (w', input_names') \<longrightarrow>
      (\<forall>n t. \<not> QnnContainsTensor w n \<and> model_tensors w' n = Some t \<longrightarrow>
         n \<in> set (map (\<lambda>i. Name (node_arg i)) (Inputs node_unit)) \<and> tw_name t = n \<and>
         (tw_type t = QNN_TENSOR_TYPE_STATIC \<longleftrightarrow> IsInitializerInput w n) \<and>
         (tw_type t = QNN_TENSOR_TYPE_APP_WRITE \<longleftrightarrow> \<not> IsInitializerInput w n)) \<and>
      (\<forall>i\<in>set (Inputs node_unit). \<not> QnnContainsTensor w (Name (node_arg i)) \<longrightarrow>
         (\<exists>t. model_tensors w' (Name (node_arg i)) = Some t \<and>
              tw_name t = Name (node_arg i) \<and>
              (tw_type t = QNN_TENSOR_TYPE_STATIC \<longleftrightarrow>
                 IsInitializerInput w (Name (node_arg i))) \<and>
              (tw_type t = QNN_TENSOR_TYPE_APP_WRITE \<longleftrightarrow>
                 \<not> IsInitializerInput w (Name (node_arg i)))))) \<and>
   (ProcessInputs env w node_unit is_quantized_model input_names do_op_validation =
      Inl (e, w'', input_names'') \<longrightarrow>
      (\<forall>n t. \<not> QnnContainsTensor w n \<and> model_tensors w'' n = Some t \<longrightarrow>
         n \<in> set (map (\<lambda>i. Name (node_arg i)) (Inputs node_unit)) \<and> tw_name t = n \<and>
         (tw_type t = QNN_TENSOR_TYPE_STATIC \<longleftrightarrow> IsInitializerInput w n) \<and>
         (tw_type t = QNN_TENSOR_TYPE_APP_WRITE \<longleftrightarrow> \<not> IsInitializerInput w n)) \<and>
      (\<exists>earlier failing later.
         Inputs node_unit = earlier @ failing # later \<and>
         \<not> QnnContainsTensor w'' (Name (node_arg failing)) \<and>
         (\<forall>i\<in>set earlier. \<not> QnnContainsTensor w (Name (node_arg i)) \<longrightarrow>
            (\<exists>t. model_tensors w'' (Name (node_arg i)) = Some t \<and>
                 tw_name t = Name (node_arg i) \<and>
                 (tw_type t = QNN_TENSOR_TYPE_STATIC \<longleftrightarrow>
                    IsInitializerInput w (Name (node_arg i))) \<and>
                 (tw_type t = QNN_TENSOR_TYPE_APP_WRITE \<longleftrightarrow>
                    \<not> IsInitializerInput w (Name (node_arg i))))))) \<and>
   (ProcessOutputs env builder w2 node_unit2 input_names2 node_params2 is_quantized_model2
      do_op_validation2 = Inr w2' \<longrightarrow>
      (\<exists>qnn_outputs.
         ProcessOutputs_loop env w2 is_quantized_model2
           (take (min (length (Outputs node_unit2)) (output_count builder)) (Outputs node_unit2))
           [] = Inr qnn_outputs \<and>
         map tw_name qnn_outputs =
           map (\<lambda>output. Name (node_arg output))
             (take (min (length (Outputs node_unit2)) (output_count builder))
                (Outputs node_unit2)) \<and>
         (\<forall>t\<in>set qnn_outputs.
            (tw_type t = QNN_TENSOR_TYPE_APP_READ \<longleftrightarrow> IsGraphOutput w2 (tw_name t)) \<and>
            (tw_type t = QNN_TENSOR_TYPE_NATIVE \<longleftrightarrow> \<not> IsGraphOutput w2 (tw_name t))) \<and>
         (\<not> do_op_validation2 \<longrightarrow>
            (\<exists>op. qnn_op_property_list w2' = qnn_op_property_list w2 @ [op] \<and>
                  op_outputs op = qnn_outputs))))"
proof (intro conjI impI)
  assume "ProcessInputs env w node_unit is_quantized_model input_names do_op_validation =
      Inr (w', input_names')"
  from ProcessInputs_Inr [OF this] obtain qp dt where
    "ProcessInputs_loop env is_quantized_model (Inputs node_unit)
       (w, input_names,
        InitializeQuantizeParam env (QNN_QUANTIZE_PARAMS_INIT env) is_quantized_model,
        QNN_DATATYPE_FLOAT_32) = Inr (w', input_names', qp, dt)"
    by blast
  note roles = ProcessInputs_loop_roles [OF this]
  show "\<forall>n t. \<not> QnnContainsTensor w n \<and> model_tensors w' n = Some t \<longrightarrow>
         n \<in> set (map (\<lambda>i. Name (node_arg i)) (Inputs node_unit)) \<and> tw_name t = n \<and>
         (tw_type t = QNN_TENSOR_TYPE_STATIC \<longleftrightarrow> IsInitializerInput w n) \<and>
         (tw_type t = QNN_TENSOR_TYPE_APP_WRITE \<longleftrightarrow> \<not> IsInitializerInput w n)"
    by (rule roles [THEN conjunct1])
  show "\<forall>i\<in>set (Inputs node_unit). \<not> QnnContainsTensor w (Name (node_arg i)) \<longrightarrow>
         (\<exists>t. model_tensors w' (Name (node_arg i)) = Some t \<and>
              tw_name t = Name (node_arg i) \<and>
              (tw_type t = QNN_TENSOR_TYPE_STATIC \<longleftrightarrow>
                 IsInitializerInput w (Name (node_arg i))) \<and>
              (tw_type t = QNN_TENSOR_TYPE_APP_WRITE \<longleftrightarrow>
                 \<not> IsInitializerInput w (Name (node_arg i))))"
    by (rule roles [THEN conjunct2])
next
  assume "ProcessInputs env w node_unit is_quantized_model input_names do_op_validation =
      Inl (e, w'', input_names'')"
  from ProcessInputs_Inl [OF this] obtain earlier failing later names1 qp dt where
    split: "Inputs node_unit = earlier @ failing # later" and
    run: "ProcessInputs_loop env is_quantized_model earlier
       (w, input_names,
        InitializeQuantizeParam env (QNN_QUANTIZE_PARAMS_INIT env) is_quantized_model,
        QNN_DATATYPE_FLOAT_32) = Inr (w'', names1, qp, dt)" and
    absent: "\<not> QnnContainsTensor w'' (Name (node_arg failing))"
    by blast
  note roles = ProcessInputs_loop_roles [OF run]
  have new: "\<forall>n t. \<not> QnnContainsTensor w n \<and> model_tensors w'' n = Some t \<longrightarrow>
         n \<in> set (map (\<lambda>i. Name (node_arg i)) earlier) \<and> tw_name t = n \<and>
         (tw_type t = QNN_TENSOR_TYPE_STATIC \<longleftrightarrow> IsInitializerInput w n) \<and>
         (tw_type t = QNN_TENSOR_TYPE_APP_WRITE \<longleftrightarrow> \<not> IsInitializerInput w n)"
    by (rule roles [THEN conjunct1])
  have "set (map (\<lambda>i. Name (node_arg i)) earlier) \<subseteq>
      set (map (\<lambda>i. Name (node_arg i)) (Inputs node_unit))"
    by (auto simp: split)
  with new show "\<forall>n t. \<not> QnnContainsTensor w n \<and> model_tensors w'' n = Some t \<longrightarrow>
         n \<in> set (map (\<lambda>i. Name (node_arg i)) (Inputs node_unit)) \<and> tw_name t = n \<and>
         (tw_type t = QNN_TENSOR_TYPE_STATIC \<longleftrightarrow> IsInitializerInput w n) \<and>
         (tw_type t = QNN_TENSOR_TYPE_APP_WRITE \<longleftrightarrow> \<not> IsInitializerInput w n)"
    by blast
  have registered: "\<forall>i\<in>set earlier. \<not> QnnContainsTensor w (Name (node_arg i)) \<longrightarrow>
            (\<exists>t. model_tensors w'' (Name (node_arg i)) = Some t \<and>
                 tw_name t = Name (node_arg i) \<and>
                 (tw_type t = QNN_TENSOR_TYPE_STATIC \<longleftrightarrow>
                    IsInitializerInput w (Name (node_arg i))) \<and>
                 (tw_type t = QNN_TENSOR_TYPE_APP_WRITE \<longleftrightarrow>
                    \<not> IsInitializerInput w (Name (node_arg i))))"
    by (rule roles [THEN conjunct2])
  show "\<exists>earlier failing later.
         Inputs node_unit = earlier @ failing # later \<and>
         \<not> QnnContainsTensor w'' (Name (node_arg failing)) \<and>
         (\<forall>i\<in>set earlier. \<not> QnnContainsTensor w (Name (node_arg i)) \<longrightarrow>
            (\<exists>t. model_tensors w'' (Name (node_arg i)) = Some t \<and>
                 tw_name t = Name (node_arg i) \<and>
                 (tw_type t = QNN_TENSOR_TYPE_STATIC \<longleftrightarrow>
                    IsInitializerInput w (Name (node_arg i))) \<and>
                 (tw_type t = QNN_TENSOR_TYPE_APP_WRITE \<longleftrightarrow>
                    \<not> IsInitializerInput w (Name (node_arg i)))))"
    using split absent registered by blast
next
  assume out: "ProcessOutputs env builder w2 node_unit2 input_names2 node_params2
      is_quantized_model2 do_op_validation2 = Inr w2'"
  let ?outputs = "take (min (length (Outputs node_unit2)) (output_count builder))
                    (Outputs node_unit2)"
  from ProcessOutputs_Inr [OF out] obtain qnn_outputs where
    loop: "ProcessOutputs_loop env w2 is_quantized_model2 ?outputs [] = Inr qnn_outputs" and
    w2': "if do_op_validation2 then w2' = w2
      else w2' = w2\<lparr>qnn_op_property_list := qnn_op_property_list w2 @
              [\<lparr>op_node_name = GetNodeName env node_unit2,
                op_package_name = qnn_def_package_name env,
                op_node_type = GetQnnOpType env (OpType node_unit2),
                op_params = node_params2,
                op_input_names = input_names2,
                op_outputs = qnn_outputs\<rparr>]\<rparr>"
    by blast
  from ProcessOutputs_loop_Inr [OF loop] have
    names: "map tw_name qnn_outputs = map (\<lambda>output. Name (node_arg output)) ?outputs" and
    roles: "\<forall>t\<in>set qnn_outputs.
       tw_type t = (if IsGraphOutput w2 (tw_name t) then QNN_TENSOR_TYPE_APP_READ
                    else QNN_TENSOR_TYPE_NATIVE)"
    by auto
  have roles': "\<forall>t\<in>set qnn_outputs.
            (tw_type t = QNN_TENSOR_TYPE_APP_READ \<longleftrightarrow> IsGraphOutput w2 (tw_name t)) \<and>
            (tw_type t = QNN_TENSOR_TYPE_NATIVE \<longleftrightarrow> \<not> IsGraphOutput w2 (tw_name t))"
    using roles by auto
  have attached: "\<not> do_op_validation2 \<longrightarrow>
            (\<exists>op. qnn_op_property_list w2' = qnn_op_property_list w2 @ [op] \<and>
                  op_outputs op = qnn_outputs)"
    using w2' by auto
  show "\<exists>qnn_outputs.
         ProcessOutputs_loop env w2 is_quantized_model2 ?outputs [] = Inr qnn_outputs \<and>
         map tw_name qnn_outputs = map (\<lambda>output. Name (node_arg output)) ?outputs \<and>
         (\<forall>t\<in>set qnn_outputs.
            (tw_type t = QNN_TENSOR_TYPE_APP_READ \<longleftrightarrow> IsGraphOutput w2 (tw_name t)) \<and>
            (tw_type t = QNN_TENSOR_TYPE_NATIVE \<longleftrightarrow> \<not> IsGraphOutput w2 (tw_name t))) \<and>
         (\<not> do_op_validation2 \<longrightarrow>
            (\<exists>op. qnn_op_property_list w2' = qnn_op_property_list w2 @ [op] \<and>
                  op_outputs op = qnn_outputs))"
    using loop names roles' attached by blast
qed

theorem tensor_roles_witness:
  "(\<exists>w' names t d.
      ProcessInputs example_env example_wrapper (example_node ''Relu'' []) False [] False =
        Inr (w', names) \<and>
      \<not> QnnContainsTensor example_wrapper ''weights'' \<and>
      IsInitializerInput example_wrapper ''weights'' \<and>
      model_tensors w' ''weights'' = Some t \<and> tw_type t = QNN_TENSOR_TYPE_STATIC \<and>
      \<not> QnnContainsTensor example_wrapper ''data'' \<and>
      \<not> IsInitializerInput example_wrapper ''data'' \<and>
      model_tensors w' ''data'' = Some d \<and> tw_type d = QNN_TENSOR_TYPE_APP_WRITE) \<and>
   (\<exists>w' names t.
      ProcessInputs example_env example_wrapper example_node_failing False [] False =
        Inl (FAIL ''Cannot get shape'', w', names) \<and>
      model_tensors w' ''weights'' = Some t \<and> tw_type t = QNN_TENSOR_TYPE_STATIC \<and>
      \<not> QnnContainsTensor w' ''unshaped'' \<and> \<not> QnnContainsTensor w' ''data'') \<and>
   (\<exists>t. ProcessOutputs_loop example_env example_wrapper_inputs False
          [example_io ''reduced''] [] = Inr [t] \<and>
        tw_name t = ''reduced'' \<and> tw_type t = QNN_TENSOR_TYPE_APP_READ) \<and>
   (\<exists>t. ProcessOutputs_loop example_env example_wrapper_inputs False
          [example_io ''hidden''] [] = Inr [t] \<and>
        tw_name t = ''hidden'' \<and> tw_type t = QNN_TENSOR_TYPE_NATIVE)"
proof -
  note run = example_ProcessInputs [of "''Relu''" "[]" False]
  note inputs = tensor_roles [THEN conjunct1, THEN mp, OF run, THEN conjunct2]
  have "example_io ''weights'' \<in> set (Inputs (example_node ''Relu'' []))"
    by (simp add: example_node_def)
  from inputs [THEN bspec, OF this]
  obtain t where t: "model_tensors example_wrapper_inputs ''weights'' = Some t"
    "tw_type t = QNN_TENSOR_TYPE_STATIC"
    using example_registry(1,2) by (auto simp: example_outputs(3))
  have "example_io ''data'' \<in> set (Inputs (example_node ''Relu'' []))"
    by (simp add: example_node_def)
  from inputs [THEN bspec, OF this]
  obtain d where d: "model_tensors example_wrapper_inputs ''data'' = Some d"
    "tw_type d = QNN_TENSOR_TYPE_APP_WRITE"
    using example_registry(1,3) by (auto simp: example_outputs(3))
  have success: "\<exists>w' names t d.
      ProcessInputs example_env example_wrapper (example_node ''Relu'' []) False [] False =
        Inr (w', names) \<and>
      \<not> QnnContainsTensor example_wrapper ''weights'' \<and>
      IsInitializerInput example_wrapper ''weights'' \<and>
      model_tensors w' ''weights'' = Some t \<and> tw_type t = QNN_TENSOR_TYPE_STATIC \<and>
      \<not> QnnContainsTensor example_wrapper ''data'' \<and>
      \<not> IsInitializerInput example_wrapper ''data'' \<and>
      model_tensors w' ''data'' = Some d \<and> tw_type d = QNN_TENSOR_TYPE_APP_WRITE"
    using run t d example_registry(1,2,3) by blast
  note failed = tensor_roles [THEN conjunct2, THEN conjunct1, THEN mp,
      OF example_ProcessInputs_failing]
  from failed [THEN conjunct2] obtain earlier failing later where
    split: "Inputs example_node_failing = earlier @ failing # later" and
    absent: "\<not> QnnContainsTensor example_wrapper_failing (Name (node_arg failing))" and
    registered: "\<forall>i\<in>set earlier. \<not> QnnContainsTensor example_wrapper (Name (node_arg i)) \<longrightarrow>
        (\<exists>t. model_tensors example_wrapper_failing (Name (node_arg i)) = Some t \<and>
             tw_name t = Name (node_arg i) \<and>
             (tw_type t = QNN_TENSOR_TYPE_STATIC \<longleftrightarrow>
                IsInitializerInput example_wrapper (Name (node_arg i))) \<and>
             (tw_type t = QNN_TENSOR_TYPE_APP_WRITE \<longleftrightarrow>
                \<not> IsInitializerInput example_wrapper (Name (node_arg i))))"
    by blast
  have "failing \<noteq> example_io ''weights''"
    using absent example_failing_registry(1) by (auto simp: example_outputs(3))
  with split have "example_io ''weights'' \<in> set earlier"
    by (cases earlier) (simp_all add: example_node_failing_def)
  from registered [THEN bspec, OF this]
  obtain s where s: "model_tensors example_wrapper_failing ''weights'' = Some s"
    "tw_type s = QNN_TENSOR_TYPE_STATIC"
    using example_registry(1,2) by (auto simp: example_outputs(3))
  have failure: "\<exists>w' names t.
      ProcessInputs example_env example_wrapper example_node_failing False [] False =
        Inl (FAIL ''Cannot get shape'', w', names) \<and>
      model_tensors w' ''weights'' = Some t \<and> tw_type t = QNN_TENSOR_TYPE_STATIC \<and>
      \<not> QnnContainsTensor w' ''unshaped'' \<and> \<not> QnnContainsTensor w' ''data''"
    using example_ProcessInputs_failing s example_failing_registry(2,3) by blast
  from tensor_roles [THEN conjunct2, THEN conjunct2, THEN mp, OF example_ProcessOutputs]
  obtain r where r:
    "ProcessOutputs_loop example_env example_wrapper_inputs False [example_io ''reduced''] [] =
       Inr r"
    "map tw_name r = [''reduced'']"
    "\<forall>t\<in>set r. (tw_type t = QNN_TENSOR_TYPE_APP_READ) = IsGraphOutput example_wrapper_inputs (tw_name t)"
    by (auto simp: example_outputs)
  from r(2) obtain tr where tr: "r = [tr]" "tw_name tr = ''reduced''" by auto
  have reduced: "tw_type tr = QNN_TENSOR_TYPE_APP_READ"
    using r(3) tr example_graph_outputs by simp
  from tensor_roles [THEN conjunct2, THEN conjunct2, THEN mp, OF example_ProcessOutputs_hidden]
  obtain h where h:
    "ProcessOutputs_loop example_env example_wrapper_inputs False [example_io ''hidden''] [] =
       Inr h"
    "map tw_name h = [''hidden'']"
    "\<forall>t\<in>set h. (tw_type t = QNN_TENSOR_TYPE_NATIVE) = (\<not> IsGraphOutput example_wrapper_inputs (tw_name t))"
    by (auto simp: example_outputs)
  from h(2) obtain th where th: "h = [th]" "tw_name th = ''hidden''" by auto
  have hidden: "tw_type th = QNN_TENSOR_TYPE_NATIVE"
    using h(3) th example_graph_outputs by simp
  have outputs: "(\<exists>t. ProcessOutputs_loop example_env example_wrapper_inputs False
          [example_io ''reduced''] [] = Inr [t] \<and>
        tw_name t = ''reduced'' \<and> tw_type t = QNN_TENSOR_TYPE_APP_READ) \<and>
   (\<exists>t. ProcessOutputs_loop example_env example_wrapper_inputs False
          [example_io ''hidden''] [] = Inr [t] \<and>
        tw_name t = ''hidden'' \<and> tw_type t = QNN_TENSOR_TYPE_NATIVE)"
    using r(1) tr reduced h(1) th hidden by auto
  show ?thesis using success failure outputs by blast
qed

text \<open>
  C6. An input whose tensor name is already in the registry is skipped: the loop body leaves
  the accumulator (and the loop's variables) as they are and still appends the name to
  \<open>input_names\<close>. A successful \<open>ProcessInputs\<close> appends the names of all inputs in
  order, leaves every tensor that was registered before as it was, and has all its inputs
  registered afterwards; and on a node all of whose inputs are registered (a sibling sharing
  them) \<open>ProcessInputs\<close> succeeds with the accumulator unchanged.
\<close>

theorem shared_input_skipped:
  "(QnnContainsTensor w (Name (node_arg input)) \<longrightarrow>
      ProcessInputs_body env is_quantized_model input
        (w, input_names, quantize_param, qnn_data_type) =
      Inr (w, input_names @ [Name (node_arg input)], quantize_param, qnn_data_type)) \<and>
   (ProcessInputs env w node_unit is_quantized_model input_names do_op_validation =
      Inr (w', input_names') \<longrightarrow>
      input_names' = input_names @ map (\<lambda>i. Name (node_arg i)) (Inputs node_unit) \<and>
      (\<forall>n. QnnContainsTensor w n \<longrightarrow> model_tensors w' n = model_tensors w n) \<and>
      (\<forall>i\<in>set (Inputs node_unit). QnnContainsTensor w' (Name (node_arg i)))) \<and>
   ((\<forall>i\<in>set (Inputs sibling). QnnContainsTensor w2 (Name (node_arg i))) \<longrightarrow>
      ProcessInputs env w2 sibling is_quantized_model2 input_names2 do_op_validation2 =
      Inr (w2, input_names2 @ map (\<lambda>i. Name (node_arg i)) (Inputs sibling)))"
proof (intro conjI impI)
  assume "QnnContainsTensor w (Name (node_arg input))"
  then show "ProcessInputs_body env is_quantized_model input
        (w, input_names, quantize_param, qnn_data_type) =
      Inr (w, input_names @ [Name (node_arg input)], quantize_param, qnn_data_type)"
    by (rule ProcessInputs_body_present)
next
  assume run: "ProcessInputs env w node_unit is_quantized_model input_names do_op_validation =
      Inr (w', input_names')"
  then obtain qp dt where
    "ProcessInputs_loop env is_quantized_model (Inputs node_unit)
       (w, input_names,
        InitializeQuantizeParam env (QNN_QUANTIZE_PARAMS_INIT env) is_quantized_model,
        QNN_DATATYPE_FLOAT_32) = Inr (w', input_names', qp, dt)"
    by (auto simp: ProcessInputs_def Let_def split: sum.splits)
  note inv = ProcessInputs_loop_Inr [OF this]
  show "input_names' = input_names @ map (\<lambda>i. Name (node_arg i)) (Inputs node_unit)"
    using inv by blast
  show "\<forall>n. QnnContainsTensor w n \<longrightarrow> model_tensors w' n = model_tensors w n"
    using inv by blast
  show "\<forall>i\<in>set (Inputs node_unit). QnnContainsTensor w' (Name (node_arg i))"
    using inv by blast
next
  assume "\<forall>i\<in>set (Inputs sibling). QnnContainsTensor w2 (Name (node_arg i))"
  then show "ProcessInputs env w2 sibling is_quantized_model2 input_names2 do_op_validation2 =
      Inr (w2, input_names2 @ map (\<lambda>i. Name (node_arg i)) (Inputs sibling))"
    by (simp add: ProcessInputs_def Let_def ProcessInputs_loop_all_present)
qed

theorem shared_input_skipped_witness:
  "ProcessInputs example_env example_wrapper_inputs (example_node ''Relu'' []) False [] False =
     Inr (example_wrapper_inputs, [''data'', ''indices'', ''weights'']) \<and>
   ProcessInputs_body example_env False (example_io ''data'')
     (example_wrapper_inputs, [], QNN_QUANTIZE_PARAMS_INIT example_env, QNN_DATATYPE_FLOAT_32) =
     Inr (example_wrapper_inputs, [''data''], QNN_QUANTIZE_PARAMS_INIT example_env,
          QNN_DATATYPE_FLOAT_32) \<and>
   QnnContainsTensor example_wrapper_inputs ''weights''"
proof -
  have second: "ProcessInputs example_env example_wrapper_inputs (example_node ''Relu'' [])
      False [] False = Inr (example_wrapper_inputs, [''data'', ''indices'', ''weights''])"
    using shared_input_skipped [THEN conjunct2, THEN conjunct2, THEN mp,
        OF example_registry_inputs(1)]
    by (simp add: example_input_names)
  have skip: "ProcessInputs_body example_env False (example_io ''data'')
     (example_wrapper_inputs, [], QNN_QUANTIZE_PARAMS_INIT example_env, QNN_DATATYPE_FLOAT_32) =
     Inr (example_wrapper_inputs, [''data''], QNN_QUANTIZE_PARAMS_INIT example_env,
          QNN_DATATYPE_FLOAT_32)"
    using shared_input_skipped [THEN conjunct1, THEN mp, OF example_registry_inputs(2)]
    by (simp add: example_outputs)
  have first: "\<forall>i\<in>set (Inputs (example_node ''Relu'' [])).
      QnnContainsTensor example_wrapper_inputs (Name (node_arg i))"
    using shared_input_skipped [THEN conjunct2, THEN conjunct1, THEN mp,
        OF example_ProcessInputs [of "''Relu''" "[]" False]]
    by blast
  then have "QnnContainsTensor example_wrapper_inputs ''weights''"
    by (simp add: example_node_def example_io_def)
  then show ?thesis using second skip by simp
qed

subsection \<open>ArgMax and ArgMin\<close>

lemma ArgMaxMin_after_axis:
  assumes "ProcessAxisAttribute env w node_unit [] 0 = Inr (ps, v)"
  shows "ArgMaxMinOpBuilder_ProcessAttributesAndOutputs env builder w node_unit input_names
           is_quantized_model do_op_validation =
         (if NodeAttrHelper_Get node_unit ''select_last_index'' 0 \<noteq> 0
          then Inl (FAIL ''QNN ArgMax/ArgMin only support select_last_index=0.'')
          else ProcessOutputs env builder w node_unit input_names
                 (ps @ [ScalarParam (qnn_def_keep_dims env)
                         ((QNN_SCALAR_INIT env)
                            \<lparr>dataType := QNN_DATATYPE_BOOL_8,
                             bool8Value :=
                               (if NodeAttrHelper_Get node_unit ''keepdims'' 1 = 0 then 0 else 1)\<rparr>)])
                 is_quantized_model do_op_validation)"
  using assms unfolding ArgMaxMinOpBuilder_ProcessAttributesAndOutputs_def
  by (simp add: Let_def split: sum.splits)

lemma ArgMaxMin_axis_failed:
  assumes "ProcessAxisAttribute env w node_unit [] 0 = Inl e"
  shows "ArgMaxMinOpBuilder_ProcessAttributesAndOutputs env builder w node_unit input_names
           is_quantized_model do_op_validation = Inl e"
  using assms unfolding ArgMaxMinOpBuilder_ProcessAttributesAndOutputs_def
  by (simp add: Let_def)

lemma example_axis_failed:
  "ProcessAxisAttribute example_env w
     (example_node ''ArgMax'' [(''axis'', 7), (''select_last_index'', 1)]) [] 0 =
   Inl (EXCEPTION ''QNN requires axis range [0, rank-1].'')"
  by (simp add: ProcessAxisAttribute_def example_defs NodeAttrHelper_Get_def Let_def)

text \<open>
  C4, as stated, fails. The claim reads: for every ArgMax/ArgMin node-unit, translation fails
  with an explicit unsupported-configuration error whenever \<open>select_last_index\<close> holds a
  value other than 0. The stage processes the axis attribute first. On the node with
  \<open>select_last_index = 1\<close> and \<open>axis = 7\<close> at rank 4 the \<open>ORT_ENFORCE\<close> of
  \<open>ProcessAxisAttribute\<close> throws \<open>QNN requires axis range [0, rank-1].\<close>, and on the same
  node with a first input whose shape is unknown the stage returns \<open>Cannot get shape\<close>:
  in neither run is the error the one that names \<open>select_last_index\<close>.
\<close>

theorem select_last_index_counterexample:
  "NodeAttrHelper_Get (example_node ''ArgMax'' [(''axis'', 7), (''select_last_index'', 1)])
     ''select_last_index'' 0 = 1 \<and>
   ArgMaxMinOpBuilder_ProcessAttributesAndOutputs example_env ArgMaxMinOpBuilder
     example_wrapper_inputs
     (example_node ''ArgMax'' [(''axis'', 7), (''select_last_index'', 1)])
     [''data'', ''indices'', ''weights''] False True =
   Inl (EXCEPTION ''QNN requires axis range [0, rank-1].'') \<and>
   ArgMaxMinOpBuilder_ProcessAttributesAndOutputs example_env ArgMaxMinOpBuilder
     example_wrapper_inputs
     (example_node ''ArgMax'' [(''axis'', 7), (''select_last_index'', 1)])
     [''data'', ''indices'', ''weights''] False True \<noteq>
   Inl (FAIL ''QNN ArgMax/ArgMin only support select_last_index=0.'') \<and>
   NodeAttrHelper_Get
     ((example_node ''ArgMax'' [(''axis'', 2), (''select_last_index'', 1)])
        \<lparr>Inputs := [example_io ''unshaped'']\<rparr>)
     ''select_last_index'' 0 = 1 \<and>
   ArgMaxMinOpBuilder_ProcessAttributesAndOutputs example_env ArgMaxMinOpBuilder
     example_wrapper_inputs
     ((example_node ''ArgMax'' [(''axis'', 2), (''select_last_index'', 1)])
        \<lparr>Inputs := [example_io ''unshaped'']\<rparr>)
     [''unshaped''] False True =
   Inl (FAIL ''Cannot get shape'')"
  by (simp add: ArgMaxMinOpBuilder_ProcessAttributesAndOutputs_def ProcessAxisAttribute_def
      NodeAttrHelper_Get_def example_defs Let_def)

text \<open>
  C4, amended. The stage runs \<open>ProcessAxisAttribute\<close> first, and when that fails the stage
  fails with its error, whatever \<open>select_last_index\<close> holds. When it has succeeded, the
  stage fails with the status \<open>QNN ArgMax/ArgMin only support select_last_index=0.\<close>
  whenever \<open>select_last_index\<close> holds a value other than 0, and when the attribute is 0 it
  goes on: it is \<open>ProcessOutputs\<close> on the axis parameter followed by the \<open>keep_dims\<close>
  parameter. So a node-unit whose \<open>select_last_index\<close> is not 0 always fails, and the stage
  never builds anything for it. An absent attribute reads as 0.
\<close>

theorem select_last_index_rejected:
  "(\<forall>ps v. ProcessAxisAttribute env w node_unit [] 0 = Inr (ps, v) \<longrightarrow>
      (NodeAttrHelper_Get node_unit ''select_last_index'' 0 \<noteq> 0 \<longrightarrow>
         ArgMaxMinOpBuilder_ProcessAttributesAndOutputs env builder w node_unit input_names
           is_quantized_model do_op_validation =
         Inl (FAIL ''QNN ArgMax/ArgMin only support select_last_index=0.'')) \<and>
      (NodeAttrHelper_Get node_unit ''select_last_index'' 0 = 0 \<longrightarrow>
         ArgMaxMinOpBuilder_ProcessAttributesAndOutputs env builder w node_unit input_names
           is_quantized_model do_op_validation =
         ProcessOutputs env builder w node_unit input_names
           (ps @ [ScalarParam (qnn_def_keep_dims env)
                   ((QNN_SCALAR_INIT env)
                      \<lparr>dataType := QNN_DATATYPE_BOOL_8,
                       bool8Value :=
                         (if NodeAttrHelper_Get node_unit ''keepdims'' 1 = 0 then 0 else 1)\<rparr>)])
           is_quantized_model do_op_validation)) \<and>
   (\<forall>e. ProcessAxisAttribute env w node_unit [] 0 = Inl e \<longrightarrow>
      ArgMaxMinOpBuilder_ProcessAttributesAndOutputs env builder w node_unit input_names
        is_quantized_model do_op_validation = Inl e) \<and>
   (NodeAttrHelper_Get node_unit ''select_last_index'' 0 \<noteq> 0 \<longrightarrow>
      (\<exists>e. ArgMaxMinOpBuilder_ProcessAttributesAndOutputs env builder w node_unit input_names
              is_quantized_model do_op_validation = Inl e)) \<and>
   (attributes node_unit ''select_last_index'' = None \<longrightarrow>
      NodeAttrHelper_Get node_unit ''select_last_index'' 0 = 0)"
proof (intro conjI allI impI)
  fix ps v
  assume "ProcessAxisAttribute env w node_unit [] 0 = Inr (ps, v)"
    and "NodeAttrHelper_Get node_unit ''select_last_index'' 0 \<noteq> 0"
  then show "ArgMaxMinOpBuilder_ProcessAttributesAndOutputs env builder w node_unit input_names
           is_quantized_model do_op_validation =
         Inl (FAIL ''QNN ArgMax/ArgMin only support select_last_index=0.'')"
    by (simp add: ArgMaxMin_after_axis)
next
  fix ps v
  assume "ProcessAxisAttribute env w node_unit [] 0 = Inr (ps, v)"
    and "NodeAttrHelper_Get node_unit ''select_last_index'' 0 = 0"
  then show "ArgMaxMinOpBuilder_ProcessAttributesAndOutputs env builder w node_unit input_names
           is_quantized_model do_op_validation =
         ProcessOutputs env builder w node_unit input_names
           (ps @ [ScalarParam (qnn_def_keep_dims env)
                   ((QNN_SCALAR_INIT env)
                      \<lparr>dataType := QNN_DATATYPE_BOOL_8,
                       bool8Value :=
                         (if NodeAttrHelper_Get node_unit ''keepdims'' 1 = 0 then 0 else 1)\<rparr>)])
           is_quantized_model do_op_validation"
    by (simp add: ArgMaxMin_after_axis)
next
  fix e
  assume "ProcessAxisAttribute env w node_unit [] 0 = Inl e"
  then show "ArgMaxMinOpBuilder_ProcessAttributesAndOutputs env builder w node_unit input_names
        is_quantized_model do_op_validation = Inl e"
    by (rule ArgMaxMin_axis_failed)
next
  assume nz: "NodeAttrHelper_Get node_unit ''select_last_index'' 0 \<noteq> 0"
  show "\<exists>e. ArgMaxMinOpBuilder_ProcessAttributesAndOutputs env builder w node_unit input_names
              is_quantized_model do_op_validation = Inl e"
  proof (cases "ProcessAxisAttribute env w node_unit [] 0")
    case (Inl e)
    then show ?thesis by (simp add: ArgMaxMin_axis_failed)
  next
    case (Inr r)
    then obtain ps v where "ProcessAxisAttribute env w node_unit [] 0 = Inr (ps, v)"
      by (cases r) simp
    then show ?thesis using nz by (simp add: ArgMaxMin_after_axis)
  qed
next
  assume "attributes node_unit ''select_last_index'' = None"
  then show "NodeAttrHelper_Get node_unit ''select_last_index'' 0 = 0"
    by (simp add: NodeAttrHelper_Get_def)
qed

theorem select_last_index_rejected_witness:
  "ArgMaxMinOpBuilder_ProcessAttributesAndOutputs example_env ArgMaxMinOpBuilder
     example_wrapper_inputs
     (example_node ''ArgMax'' [(''axis'', 2), (''select_last_index'', 1)])
     [''data'', ''indices'', ''weights''] False True =
   Inl (FAIL ''QNN ArgMax/ArgMin only support select_last_index=0.'') \<and>
   ArgMaxMinOpBuilder_ProcessAttributesAndOutputs example_env ArgMaxMinOpBuilder
     example_wrapper_inputs (example_node ''ArgMax'' [(''axis'', 2)])
     [''data'', ''indices'', ''weights''] False True =
   ProcessOutputs example_env ArgMaxMinOpBuilder example_wrapper_inputs
     (example_node ''ArgMax'' [(''axis'', 2)]) [''data'', ''indices'', ''weights'']
     [ScalarParam ''axis''
        ((QNN_SCALAR_INIT example_env)\<lparr>dataType := QNN_DATATYPE_UINT_32, uint32Value := 2\<rparr>),
      ScalarParam ''keep_dims''
        ((QNN_SCALAR_INIT example_env)\<lparr>dataType := QNN_DATATYPE_BOOL_8, bool8Value := 1\<rparr>)]
     False True \<and>
   ArgMaxMinOpBuilder_ProcessAttributesAndOutputs example_env ArgMaxMinOpBuilder
     example_wrapper_inputs
     (example_node ''ArgMax'' [(''axis'', 7), (''select_last_index'', 1)])
     [''data'', ''indices'', ''weights''] False True =
   Inl (EXCEPTION ''QNN requires axis range [0, rank-1].'') \<and>
   (\<exists>e. ArgMaxMinOpBuilder_ProcessAttributesAndOutputs example_env ArgMaxMinOpBuilder
           example_wrapper_inputs
           (example_node ''ArgMax'' [(''axis'', 7), (''select_last_index'', 1)])
           [''data'', ''indices'', ''weights''] False True = Inl e)"
proof -
  note after_axis = select_last_index_rejected [THEN conjunct1, THEN spec, THEN spec, THEN mp,
      OF example_axis]
  have a: "ArgMaxMinOpBuilder_ProcessAttributesAndOutputs example_env ArgMaxMinOpBuilder
     example_wrapper_inputs
     (example_node ''ArgMax'' [(''axis'', 2), (''select_last_index'', 1)])
     [''data'', ''indices'', ''weights''] False True =
     Inl (FAIL ''QNN ArgMax/ArgMin only support select_last_index=0.'')"
    by (rule after_axis [THEN conjunct1, THEN mp, OF example_select_last_index(2)])
  have b: "ArgMaxMinOpBuilder_ProcessAttributesAndOutputs example_env ArgMaxMinOpBuilder
     example_wrapper_inputs (example_node ''ArgMax'' [(''axis'', 2)])
     [''data'', ''indices'', ''weights''] False True =
   ProcessOutputs example_env ArgMaxMinOpBuilder example_wrapper_inputs
     (example_node ''ArgMax'' [(''axis'', 2)]) [''data'', ''indices'', ''weights'']
     [ScalarParam ''axis''
        ((QNN_SCALAR_INIT example_env)\<lparr>dataType := QNN_DATATYPE_UINT_32, uint32Value := 2\<rparr>),
      ScalarParam ''keep_dims''
        ((QNN_SCALAR_INIT example_env)\<lparr>dataType := QNN_DATATYPE_BOOL_8, bool8Value := 1\<rparr>)]
     False True"
    using after_axis [THEN conjunct2, THEN mp, OF example_select_last_index(3)]
    by (simp add: example_keepdims_absent)
  have c: "ArgMaxMinOpBuilder_ProcessAttributesAndOutputs example_env ArgMaxMinOpBuilder
     example_wrapper_inputs
     (example_node ''ArgMax'' [(''axis'', 7), (''select_last_index'', 1)])
     [''data'', ''indices'', ''weights''] False True =
   Inl (EXCEPTION ''QNN requires axis range [0, rank-1].'')"
    by (rule select_last_index_rejected [THEN conjunct2, THEN conjunct1, THEN spec, THEN mp,
          OF example_axis_failed])
  have d: "\<exists>e. ArgMaxMinOpBuilder_ProcessAttributesAndOutputs example_env ArgMaxMinOpBuilder
           example_wrapper_inputs
           (example_node ''ArgMax'' [(''axis'', 7), (''select_last_index'', 1)])
           [''data'', ''indices'', ''weights''] False True = Inl e"
    by (rule select_last_index_rejected [THEN conjunct2, THEN conjunct2, THEN conjunct1,
          THEN mp, OF example_select_last_index(1)])
  show ?thesis using a b c d by blast
qed

text \<open>
  C10. Whenever the ArgMax/ArgMin stage succeeds, it is \<open>ProcessOutputs\<close> called with
  two parameters, the axis parameter and the scalar named \<open>qnn_def::keep_dims\<close>. That
  scalar has the data type BOOL\_8; its value is 0 exactly when the \<open>keepdims\<close> attribute
  is 0, and 1 for every other attribute value and when the attribute is absent. In a
  persisting build these two are the parameters of the operator appended.
\<close>

theorem keep_dims_param_value:
  assumes "ArgMaxMinOpBuilder_ProcessAttributesAndOutputs env builder w node_unit input_names
             is_quantized_model do_op_validation = Inr w'"
  shows "\<exists>axis_param k.
     ProcessOutputs env builder w node_unit input_names
       [axis_param, ScalarParam (qnn_def_keep_dims env) k]
       is_quantized_model do_op_validation = Inr w' \<and>
     dataType k = QNN_DATATYPE_BOOL_8 \<and>
     (bool8Value k = 0 \<longleftrightarrow> NodeAttrHelper_Get node_unit ''keepdims'' 1 = 0) \<and>
     (NodeAttrHelper_Get node_unit ''keepdims'' 1 \<noteq> 0 \<longrightarrow> bool8Value k = 1) \<and>
     (attributes node_unit ''keepdims'' = None \<longrightarrow> bool8Value k = 1) \<and>
     (\<not> do_op_validation \<longrightarrow>
        (\<exists>op. qnn_op_property_list w' = qnn_op_property_list w @ [op] \<and>
              op_params op = [axis_param, ScalarParam (qnn_def_keep_dims env) k]))"
proof -
  let ?k = "(QNN_SCALAR_INIT env)
              \<lparr>dataType := QNN_DATATYPE_BOOL_8,
               bool8Value := (if NodeAttrHelper_Get node_unit ''keepdims'' 1 = 0 then 0 else 1)\<rparr>"
  obtain ps v where ax: "ProcessAxisAttribute env w node_unit [] 0 = Inr (ps, v)"
  proof (cases "ProcessAxisAttribute env w node_unit [] 0")
    case (Inl e)
    then show ?thesis using assms by (simp add: ArgMaxMin_axis_failed)
  next
    case (Inr r)
    then show ?thesis using that by (cases r) simp
  qed
  from ProcessAxisAttribute_Inr [OF ax] obtain axis_param where ps: "ps = [axis_param]"
    by simp
  have out: "ProcessOutputs env builder w node_unit input_names
       [axis_param, ScalarParam (qnn_def_keep_dims env) ?k]
       is_quantized_model do_op_validation = Inr w'"
    using assms ps by (simp add: ArgMaxMin_after_axis [OF ax] split: if_splits)
  have absent: "attributes node_unit ''keepdims'' = None \<longrightarrow> bool8Value ?k = 1"
    by (simp add: NodeAttrHelper_Get_def)
  have attached: "\<not> do_op_validation \<longrightarrow>
        (\<exists>op. qnn_op_property_list w' = qnn_op_property_list w @ [op] \<and>
              op_params op = [axis_param, ScalarParam (qnn_def_keep_dims env) ?k])"
    using ProcessOutputs_Inr [OF out] by auto
  show ?thesis
    using out absent attached
    by (intro exI [of _ axis_param] exI [of _ ?k]) simp
qed

theorem keep_dims_param_value_witness:
  "(\<exists>w' axis_param k.
      ProcessOutputs example_env ArgMaxMinOpBuilder example_wrapper_inputs
        (example_node ''ArgMax'' [(''axis'', 2), (''keepdims'', 0)])
        [''data'', ''indices'', ''weights''] [axis_param, ScalarParam ''keep_dims'' k]
        False False = Inr w' \<and>
      dataType k = QNN_DATATYPE_BOOL_8 \<and> bool8Value k = 0 \<and>
      (\<exists>op. qnn_op_property_list w' = [op] \<and>
            op_params op = [axis_param, ScalarParam ''keep_dims'' k])) \<and>
   (\<exists>w' axis_param k.
      ProcessOutputs example_env ArgMaxMinOpBuilder example_wrapper_inputs
        (example_node ''ArgMax'' [(''axis'', 2), (''keepdims'', 5)])
        [''data'', ''indices'', ''weights''] [axis_param, ScalarParam ''keep_dims'' k]
        False False = Inr w' \<and>
      dataType k = QNN_DATATYPE_BOOL_8 \<and> bool8Value k = 1) \<and>
   (\<exists>w' axis_param k.
      ProcessOutputs example_env ArgMaxMinOpBuilder example_wrapper_inputs
        (example_node ''ArgMax'' [(''axis'', 2)])
        [''data'', ''indices'', ''weights''] [axis_param, ScalarParam ''keep_dims'' k]
        False False = Inr w' \<and>
      dataType k = QNN_DATATYPE_BOOL_8 \<and> bool8Value k = 1)"
proof -
  have names: "qnn_def_keep_dims example_env = ''keep_dims''"
    "qnn_op_property_list example_wrapper_inputs = []"
    by (simp_all add: example_env_def example_wrapper_inputs_def example_wrapper_def)
  obtain w0 where "ArgMaxMinOpBuilder_ProcessAttributesAndOutputs example_env ArgMaxMinOpBuilder
     example_wrapper_inputs (example_node ''ArgMax'' [(''axis'', 2), (''keepdims'', 0)])
     [''data'', ''indices'', ''weights''] False False = Inr w0"
    using example_ArgMax_run by blast
  from keep_dims_param_value [OF this] have zero: "\<exists>w' axis_param k.
      ProcessOutputs example_env ArgMaxMinOpBuilder example_wrapper_inputs
        (example_node ''ArgMax'' [(''axis'', 2), (''keepdims'', 0)])
        [''data'', ''indices'', ''weights''] [axis_param, ScalarParam ''keep_dims'' k]
        False False = Inr w' \<and>
      dataType k = QNN_DATATYPE_BOOL_8 \<and> bool8Value k = 0 \<and>
      (\<exists>op. qnn_op_property_list w' = [op] \<and>
            op_params op = [axis_param, ScalarParam ''keep_dims'' k])"
    by (simp add: names example_keepdims) blast
  obtain w5 where "ArgMaxMinOpBuilder_ProcessAttributesAndOutputs example_env ArgMaxMinOpBuilder
     example_wrapper_inputs (example_node ''ArgMax'' [(''axis'', 2), (''keepdims'', 5)])
     [''data'', ''indices'', ''weights''] False False = Inr w5"
    using example_ArgMax_run by blast
  from keep_dims_param_value [OF this] have five: "\<exists>w' axis_param k.
      ProcessOutputs example_env ArgMaxMinOpBuilder example_wrapper_inputs
        (example_node ''ArgMax'' [(''axis'', 2), (''keepdims'', 5)])
        [''data'', ''indices'', ''weights''] [axis_param, ScalarParam ''keep_dims'' k]
        False False = Inr w' \<and>
      dataType k = QNN_DATATYPE_BOOL_8 \<and> bool8Value k = 1"
    by (simp add: names example_keepdims) blast
  obtain w1 where "ArgMaxMinOpBuilder_ProcessAttributesAndOutputs example_env ArgMaxMinOpBuilder
     example_wrapper_inputs (example_node ''ArgMax'' [(''axis'', 2)])
     [''data'', ''indices'', ''weights''] False False = Inr w1"
    using example_ArgMax_run by blast
  from keep_dims_param_value [OF this] have absent: "\<exists>w' axis_param k.
      ProcessOutputs example_env ArgMaxMinOpBuilder example_wrapper_inputs
        (example_node ''ArgMax'' [(''axis'', 2)])
        [''data'', ''indices'', ''weights''] [axis_param, ScalarParam ''keep_dims'' k]
        False False = Inr w' \<and>
      dataType k = QNN_DATATYPE_BOOL_8 \<and> bool8Value k = 1"
    by (simp add: names example_keepdims) blast
  show ?thesis using zero five absent by blast
qed

subsection \<open>The diagnostic formatters\<close>

lemma returns_put_string [simp]: "returns (put_string s)"
  by (simp add: returns_def put_string_def)

lemma returns_put_signed [simp]: "returns (put_signed v)"
  by (simp add: returns_def put_signed_def)

lemma returns_put_unsigned [simp]: "returns (put_unsigned v)"
  by (simp add: returns_def put_unsigned_def)

lemma returns_endl [simp]: "returns endl"
  by (simp add: returns_def endl_def)

lemma returns_Inr [simp]: "returns (\<lambda>out. Inr (g out))"
  by (simp add: returns_def)

lemma returns_if:
  "returns (\<lambda>out. if c then f out else g out) = (if c then returns f else returns g)"
  by (cases c) simp_all

lemma throws_if:
  "throws e (\<lambda>out. if c then f out else g out) = (if c then throws e f else throws e g)"
  by (cases c) simp_all

lemma put_all_returns:
  assumes "\<forall>f\<in>set fs. returns f"
  shows "returns (put_all fs)"
  unfolding returns_def
proof
  fix out
  from assms show "\<exists>out'. put_all fs out = Inr out'"
  proof (induction fs arbitrary: out)
    case Nil
    then show ?case by simp
  next
    case (Cons f fs)
    have "returns f" using Cons.prems by simp
    then obtain out1 where out1: "f out = Inr out1"
      unfolding returns_def by blast
    have "\<exists>out'. put_all fs out1 = Inr out'"
      using Cons.IH Cons.prems by simp
    then show ?case using out1 by simp
  qed
qed

lemma put_all_throws:
  assumes "\<forall>f\<in>set fs. returns f \<or> throws e f" and "\<exists>f\<in>set fs. throws e f"
  shows "throws e (put_all fs)"
  unfolding throws_def
proof
  fix out
  from assms show "put_all fs out = Inl e"
  proof (induction fs arbitrary: out)
    case Nil
    then show ?case by simp
  next
    case (Cons f fs)
    show ?case
    proof (cases "throws e f")
      case True
      then show ?thesis by (simp add: throws_def)
    next
      case False
      then have "returns f" using Cons.prems(1) by auto
      then obtain out1 where out1: "f out = Inr out1"
        unfolding returns_def by blast
      have "\<exists>f\<in>set fs. throws e f" using Cons.prems(2) False by auto
      then have "put_all fs out1 = Inl e" using Cons.IH Cons.prems(1) by auto
      then show ?thesis using out1 by simp
    qed
  qed
qed

lemma not_returns_and_throws: "\<not> (returns f \<and> throws e f)"
  by (auto simp: returns_def throws_def)


lemma put_all_returns_or_throws:
  assumes "\<forall>f\<in>set fs. returns f \<or> throws e f"
  shows "returns (put_all fs) \<or> throws e (put_all fs)"
proof (cases "\<exists>f\<in>set fs. throws e f")
  case True
  then show ?thesis using put_all_throws [OF assms] by simp
next
  case False
  then have "\<forall>f\<in>set fs. returns f" using assms by auto
  then show ?thesis using put_all_returns by simp
qed

lemma for_loop_returns:
  assumes "\<forall>i<n. \<forall>f\<in>set (body i). returns f"
  shows "returns (for_loop n body)"
  unfolding for_loop_def using assms by (intro put_all_returns) auto

lemma for_loop_throws:
  assumes "\<forall>i<n. \<forall>f\<in>set (body i). returns f \<or> throws e f"
    and "\<exists>i<n. \<exists>f\<in>set (body i). throws e f"
  shows "throws e (for_loop n body)"
  unfolding for_loop_def using assms by (intro put_all_throws) auto

lemma for_loop_returns_or_throws:
  assumes "\<forall>i<n. \<forall>f\<in>set (body i). returns f \<or> throws e f"
  shows "returns (for_loop n body) \<or> throws e (for_loop n body)"
  unfolding for_loop_def using assms by (intro put_all_returns_or_throws) auto

lemma returns_enums [simp]:
  "returns (put_Qnn_Definition_t d)"
  "returns (put_Qnn_QuantizationEncoding_t enc)"
  "returns (put_Qnn_TensorType_t tt)"
  "returns (put_Qnn_TensorMemType_t mt)"
  "returns (put_Qnn_ParamType_t pt)"
  by (simp_all add: returns_def put_Qnn_Definition_t_def put_Qnn_QuantizationEncoding_t_def
      put_Qnn_TensorType_t_def put_Qnn_TensorMemType_t_def put_Qnn_ParamType_t_def
      put_string_def
      split: Qnn_Definition_t.splits Qnn_QuantizationEncoding_t.splits Qnn_TensorType_t.splits
        Qnn_TensorMemType_t.splits Qnn_ParamType_t.splits)

lemma returns_put_Qnn_QuantizeParams_t [simp]:
  "returns (put_Qnn_QuantizeParams_t show_float quantize_params)"
  unfolding put_Qnn_QuantizeParams_t_def
  by (intro put_all_returns) (simp add: returns_if put_all_returns)

lemma put_Qnn_DataType_t_cases:
  "if known_data_type data_type then returns (put_Qnn_DataType_t data_type)
   else throws (EXCEPTION ''Unknown Qnn Data type'') (put_Qnn_DataType_t data_type)"
  by (cases data_type)
     (simp_all add: known_data_type_def returns_def throws_def put_Qnn_DataType_t_def
        put_string_def)

lemma put_Qnn_Scalar_t_cases:
  "if known_data_type (dataType scalar) then returns (put_Qnn_Scalar_t show_float scalar)
   else throws (EXCEPTION ''Unknown Qnn Data type'') (put_Qnn_Scalar_t show_float scalar)"
  by (cases "dataType scalar")
     (simp_all add: known_data_type_def returns_def throws_def put_Qnn_Scalar_t_def
        put_string_def put_signed_def put_unsigned_def)

lemma returns_put_Qnn_ClientBuffer_t:
  assumes "\<And>v. returns (put_T v)"
  shows "returns (put_Qnn_ClientBuffer_t put_T client_bufer)"
  unfolding put_Qnn_ClientBuffer_t_def Let_def
  by (intro put_all_returns) (auto simp: assms intro!: for_loop_returns)

lemma put_Qnn_Tensor_t_cases:
  "if known_data_type (t_dataType tensor) then returns (put_Qnn_Tensor_t show_float tensor)
   else throws (EXCEPTION ''Unknown Qnn Data type'') (put_Qnn_Tensor_t show_float tensor)"
proof (cases "known_data_type (t_dataType tensor)")
  case True
  then have "returns (put_Qnn_DataType_t (t_dataType tensor))"
    using put_Qnn_DataType_t_cases [of "t_dataType tensor"] by simp
  then have "returns (put_Qnn_Tensor_t show_float tensor)"
    unfolding put_Qnn_Tensor_t_def
    by (intro put_all_returns)
       (auto simp: returns_if returns_put_Qnn_ClientBuffer_t intro!: for_loop_returns)
  then show ?thesis using True by simp
next
  case False
  then have t: "throws (EXCEPTION ''Unknown Qnn Data type'')
      (put_Qnn_DataType_t (t_dataType tensor))"
    using put_Qnn_DataType_t_cases [of "t_dataType tensor"] by simp
  have "throws (EXCEPTION ''Unknown Qnn Data type'') (put_Qnn_Tensor_t show_float tensor)"
    unfolding put_Qnn_Tensor_t_def
    by (rule put_all_throws)
       (auto simp: t returns_if returns_put_Qnn_ClientBuffer_t intro!: for_loop_returns)
  then show ?thesis using False by simp
qed

lemma put_Qnn_Param_t_cases:
  "if known_param qnn_param then returns (put_Qnn_Param_t show_float qnn_param)
   else throws (EXCEPTION ''Unknown Qnn Data type'') (put_Qnn_Param_t show_float qnn_param)"
proof (cases "paramType qnn_param = QNN_PARAMTYPE_TENSOR")
  case True
  then have k: "known_param qnn_param = known_data_type (t_dataType (tensorParam qnn_param))"
    by (simp add: known_param_def)
  show ?thesis
  proof (cases "known_param qnn_param")
    case known: True
    then have "returns (put_Qnn_Tensor_t show_float (tensorParam qnn_param))"
      using put_Qnn_Tensor_t_cases [of "tensorParam qnn_param" show_float] k by simp
    then have "returns (put_Qnn_Param_t show_float qnn_param)"
      unfolding put_Qnn_Param_t_def
      by (intro put_all_returns) (simp add: True returns_if del: put_all.simps)
    then show ?thesis using known by simp
  next
    case unknown: False
    then have "throws (EXCEPTION ''Unknown Qnn Data type'')
        (put_Qnn_Tensor_t show_float (tensorParam qnn_param))"
      using put_Qnn_Tensor_t_cases [of "tensorParam qnn_param" show_float] k by simp
    then have "throws (EXCEPTION ''Unknown Qnn Data type'') (put_Qnn_Param_t show_float qnn_param)"
      unfolding put_Qnn_Param_t_def
      by (intro put_all_throws) (simp_all add: True throws_if returns_if del: put_all.simps)
    then show ?thesis using unknown by simp
  qed
next
  case False
  then have k: "known_param qnn_param = known_data_type (dataType (scalarParam qnn_param))"
    by (simp add: known_param_def)
  show ?thesis
  proof (cases "known_param qnn_param")
    case known: True
    then have "returns (put_Qnn_Scalar_t show_float (scalarParam qnn_param))"
      using put_Qnn_Scalar_t_cases [of "scalarParam qnn_param" show_float] k by simp
    then have "returns (put_Qnn_Param_t show_float qnn_param)"
      unfolding put_Qnn_Param_t_def
      by (intro put_all_returns) (simp add: False returns_if put_all_returns del: put_all.simps)
    then show ?thesis using known by simp
  next
    case unknown: False
    then have "throws (EXCEPTION ''Unknown Qnn Data type'')
        (put_Qnn_Scalar_t show_float (scalarParam qnn_param))"
      using put_Qnn_Scalar_t_cases [of "scalarParam qnn_param" show_float] k by simp
    then have "throws (EXCEPTION ''Unknown Qnn Data type'')
        (put_all [put_string '' value='',
                  put_Qnn_Scalar_t show_float (scalarParam qnn_param)])"
      by (intro put_all_throws) simp_all
    then have "throws (EXCEPTION ''Unknown Qnn Data type'') (put_Qnn_Param_t show_float qnn_param)"
      unfolding put_Qnn_Param_t_def
      by (intro put_all_throws) (simp_all add: False throws_if returns_if del: put_all.simps)
    then show ?thesis using unknown by simp
  qed
qed

lemma put_Qnn_OpConfig_t_cases:
  "if known_op op_definition then returns (put_Qnn_OpConfig_t show_float op_definition)
   else throws (EXCEPTION ''Unknown Qnn Data type'')
          (put_Qnn_OpConfig_t show_float op_definition)"
proof -
  let ?e = "EXCEPTION ''Unknown Qnn Data type''"
  let ?inputs = "for_loop (length (inputTensors op_definition))
      (\<lambda>i. [put_Qnn_Tensor_t show_float (inputTensors op_definition ! i), endl])"
  let ?outputs = "for_loop (length (outputTensors op_definition))
      (\<lambda>i. [put_Qnn_Tensor_t show_float (outputTensors op_definition ! i), endl])"
  let ?params = "for_loop (length (params op_definition))
      (\<lambda>i. [put_Qnn_Param_t show_float (params op_definition ! i), endl])"
  have tensor: "returns (put_Qnn_Tensor_t show_float t) \<or> throws ?e (put_Qnn_Tensor_t show_float t)"
    for t
    using put_Qnn_Tensor_t_cases [of t show_float]
    by (cases "known_data_type (t_dataType t)") simp_all
  have param: "returns (put_Qnn_Param_t show_float p) \<or> throws ?e (put_Qnn_Param_t show_float p)"
    for p
    using put_Qnn_Param_t_cases [of p show_float] by (cases "known_param p") simp_all
  have either: "returns ?inputs \<or> throws ?e ?inputs" "returns ?outputs \<or> throws ?e ?outputs"
    "returns ?params \<or> throws ?e ?params"
    by (rule for_loop_returns_or_throws, simp add: tensor param)+
  show ?thesis
  proof (cases "known_op op_definition")
    case True
    then have
      "\<forall>i<length (inputTensors op_definition).
         returns (put_Qnn_Tensor_t show_float (inputTensors op_definition ! i))"
      "\<forall>i<length (outputTensors op_definition).
         returns (put_Qnn_Tensor_t show_float (outputTensors op_definition ! i))"
      "\<forall>i<length (params op_definition).
         returns (put_Qnn_Param_t show_float (params op_definition ! i))"
      using put_Qnn_Tensor_t_cases [of _ show_float] put_Qnn_Param_t_cases [of _ show_float]
      by (auto simp: known_op_def list_all_length split: if_splits)
    then have "returns ?inputs" "returns ?outputs" "returns ?params"
      by (auto intro!: for_loop_returns)
    then have "returns (put_Qnn_OpConfig_t show_float op_definition)"
      unfolding put_Qnn_OpConfig_t_def by (intro put_all_returns) simp
    then show ?thesis using True by simp
  next
    case False
    then consider
      (i) i where "i < length (inputTensors op_definition)"
        "\<not> known_data_type (t_dataType (inputTensors op_definition ! i))" |
      (o) i where "i < length (outputTensors op_definition)"
        "\<not> known_data_type (t_dataType (outputTensors op_definition ! i))" |
      (p) i where "i < length (params op_definition)"
        "\<not> known_param (params op_definition ! i)"
      by (auto simp: known_op_def list_all_length)
    then have "throws ?e ?inputs \<or> throws ?e ?outputs \<or> throws ?e ?params"
    proof cases
      case i
      then have "throws ?e (put_Qnn_Tensor_t show_float (inputTensors op_definition ! i))"
        using put_Qnn_Tensor_t_cases [of "inputTensors op_definition ! i" show_float] by simp
      then have "throws ?e ?inputs"
        using i(1) by (intro for_loop_throws) (simp add: tensor, auto)
      then show ?thesis by simp
    next
      case o
      then have "throws ?e (put_Qnn_Tensor_t show_float (outputTensors op_definition ! i))"
        using put_Qnn_Tensor_t_cases [of "outputTensors op_definition ! i" show_float] by simp
      then have "throws ?e ?outputs"
        using o(1) by (intro for_loop_throws) (simp add: tensor, auto)
      then show ?thesis by simp
    next
      case p
      then have "throws ?e (put_Qnn_Param_t show_float (params op_definition ! i))"
        using put_Qnn_Param_t_cases [of "params op_definition ! i" show_float] by simp
      then have "throws ?e ?params"
        using p(1) by (intro for_loop_throws) (simp add: param, auto)
      then show ?thesis by simp
    qed
    then have "throws ?e (put_Qnn_OpConfig_t show_float op_definition)"
      unfolding put_Qnn_OpConfig_t_def
      using either by (intro put_all_throws) (simp, auto)
    then show ?thesis using False by simp
  qed
qed

lemma example_known:
  "known_data_type QNN_DATATYPE_UINT_32"
  "\<not> known_data_type (QNN_DATATYPE_other 0x7FFFFFFF)"
  "known_param (example_Qnn_Param_t QNN_DATATYPE_UINT_32)"
  "\<not> known_param (example_Qnn_Param_t (QNN_DATATYPE_other 0x7FFFFFFF))"
  "known_op (example_Qnn_OpConfig_t QNN_DATATYPE_UINT_32)"
  "\<not> known_op (example_Qnn_OpConfig_t (QNN_DATATYPE_other 0x7FFFFFFF))"
  "dataType (QNN_SCALAR_INIT example_env) = QNN_DATATYPE_other 0x7FFFFFFF"
  "t_dataType (example_Qnn_Tensor_t data_type) = data_type"
  by (simp_all add: known_data_type_def known_param_def known_op_def example_Qnn_Param_t_def
      example_Qnn_OpConfig_t_def example_Qnn_Tensor_t_def example_env_def)

text \<open>
  C8, as stated, fails: the formatters of \<open>Qnn_DataType_t\<close> and of \<open>Qnn_Scalar_t\<close> throw
  (\<open>ORT_THROW\<close> in the \<open>default\<close> branch) on a data type outside the listed ones.
\<close>

theorem formatter_counterexample:
  "put_Qnn_DataType_t (QNN_DATATYPE_other 0x7FFFFFFF) [] =
     Inl (EXCEPTION ''Unknown Qnn Data type'') \<and>
   put_Qnn_Scalar_t example_show_float (QNN_SCALAR_INIT example_env) [] =
     Inl (EXCEPTION ''Unknown Qnn Data type'')"
  by (simp add: put_Qnn_DataType_t_def put_Qnn_Scalar_t_def example_env_def)

text \<open>
  C8, amended. The formatters of the definition, quantization-encoding, tensor-type,
  memory-type and parameter-type enumerations and of the quantization parameters return
  normally for every value; on a value outside the known set the five enumerations write an
  "unknown" or "unsupported" marker. The formatters of a data type and of a scalar return
  normally when the data type is one of the seventeen listed (a scalar of a 64-bit or
  fixed-point type is written as a "not supported" marker, one of type FLOAT\_16 as nothing)
  and throw \<open>Unknown Qnn Data type\<close> on every other value; the formatters of a tensor, a
  parameter and an operator return normally when every data type they print is a listed one,
  and throw that exception otherwise.
\<close>

theorem formatters_return_or_throw:
  "returns (put_Qnn_Definition_t definition) \<and>
   returns (put_Qnn_QuantizationEncoding_t encoding) \<and>
   returns (put_Qnn_QuantizeParams_t show_float quantize_params) \<and>
   returns (put_Qnn_TensorType_t tensor_type) \<and>
   returns (put_Qnn_TensorMemType_t mem_type) \<and>
   returns (put_Qnn_ParamType_t param_type) \<and>
   put_Qnn_Definition_t (QNN_DEFINITION_other v) out = Inr (out @ ''Undefined'') \<and>
   put_Qnn_QuantizationEncoding_t (QNN_QUANTIZATION_ENCODING_other v) out =
     Inr (out @ ''Uknown quantization encoding'') \<and>
   put_Qnn_TensorType_t (QNN_TENSOR_TYPE_other v) out = Inr (out @ ''Unsupported type'') \<and>
   put_Qnn_TensorMemType_t (QNN_TENSORMEMTYPE_other v) out =
     Inr (out @ ''Unsupported mem type'') \<and>
   put_Qnn_ParamType_t (QNN_PARAMTYPE_other v) out = Inr (out @ ''Unknown type'') \<and>
   (if known_data_type data_type then returns (put_Qnn_DataType_t data_type)
    else throws (EXCEPTION ''Unknown Qnn Data type'') (put_Qnn_DataType_t data_type)) \<and>
   (if known_data_type (dataType scalar) then returns (put_Qnn_Scalar_t show_float scalar)
    else throws (EXCEPTION ''Unknown Qnn Data type'') (put_Qnn_Scalar_t show_float scalar)) \<and>
   (dataType scalar = QNN_DATATYPE_INT_64 \<longrightarrow>
      put_Qnn_Scalar_t show_float scalar out = Inr (out @ ''int64_t is not supported'')) \<and>
   (dataType scalar = QNN_DATATYPE_UINT_64 \<longrightarrow>
      put_Qnn_Scalar_t show_float scalar out = Inr (out @ ''uint64_t is not supported'')) \<and>
   (is_fixed_point (dataType scalar) \<longrightarrow>
      put_Qnn_Scalar_t show_float scalar out =
        Inr (out @ ''usigned fixedpoint data is not supported'')) \<and>
   (dataType scalar = QNN_DATATYPE_FLOAT_16 \<longrightarrow>
      put_Qnn_Scalar_t show_float scalar out = Inr out) \<and>
   (if known_data_type (t_dataType tensor) then returns (put_Qnn_Tensor_t show_float tensor)
    else throws (EXCEPTION ''Unknown Qnn Data type'') (put_Qnn_Tensor_t show_float tensor)) \<and>
   (if known_param qnn_param then returns (put_Qnn_Param_t show_float qnn_param)
    else throws (EXCEPTION ''Unknown Qnn Data type'') (put_Qnn_Param_t show_float qnn_param)) \<and>
   (if known_op op_definition then returns (put_Qnn_OpConfig_t show_float op_definition)
    else throws (EXCEPTION ''Unknown Qnn Data type'')
           (put_Qnn_OpConfig_t show_float op_definition))"
proof -
  have markers:
    "put_Qnn_Definition_t (QNN_DEFINITION_other v) out = Inr (out @ ''Undefined'')"
    "put_Qnn_QuantizationEncoding_t (QNN_QUANTIZATION_ENCODING_other v) out =
       Inr (out @ ''Uknown quantization encoding'')"
    "put_Qnn_TensorType_t (QNN_TENSOR_TYPE_other v) out = Inr (out @ ''Unsupported type'')"
    "put_Qnn_TensorMemType_t (QNN_TENSORMEMTYPE_other v) out =
       Inr (out @ ''Unsupported mem type'')"
    "put_Qnn_ParamType_t (QNN_PARAMTYPE_other v) out = Inr (out @ ''Unknown type'')"
    by (simp_all add: put_Qnn_Definition_t_def put_Qnn_QuantizationEncoding_t_def
        put_Qnn_TensorType_t_def put_Qnn_TensorMemType_t_def put_Qnn_ParamType_t_def
        put_string_def)
  have scalars:
    "dataType scalar = QNN_DATATYPE_INT_64 \<longrightarrow>
       put_Qnn_Scalar_t show_float scalar out = Inr (out @ ''int64_t is not supported'')"
    "dataType scalar = QNN_DATATYPE_UINT_64 \<longrightarrow>
       put_Qnn_Scalar_t show_float scalar out = Inr (out @ ''uint64_t is not supported'')"
    "is_fixed_point (dataType scalar) \<longrightarrow>
       put_Qnn_Scalar_t show_float scalar out =
         Inr (out @ ''usigned fixedpoint data is not supported'')"
    "dataType scalar = QNN_DATATYPE_FLOAT_16 \<longrightarrow>
       put_Qnn_Scalar_t show_float scalar out = Inr out"
    by (auto simp: put_Qnn_Scalar_t_def put_string_def is_fixed_point_def)
  show ?thesis
    using put_Qnn_DataType_t_cases [of data_type] put_Qnn_Scalar_t_cases [of scalar show_float]
      put_Qnn_Tensor_t_cases [of tensor show_float]
      put_Qnn_Param_t_cases [of qnn_param show_float]
      put_Qnn_OpConfig_t_cases [of op_definition show_float] markers scalars
    by simp
qed

theorem formatters_return_or_throw_witness:
  "returns (put_Qnn_TensorType_t (QNN_TENSOR_TYPE_other 99)) \<and>
   put_Qnn_TensorType_t (QNN_TENSOR_TYPE_other 99) ''type='' = Inr ''type=Unsupported type'' \<and>
   returns (put_Qnn_DataType_t QNN_DATATYPE_UINT_32) \<and>
   throws (EXCEPTION ''Unknown Qnn Data type'')
     (put_Qnn_DataType_t (QNN_DATATYPE_other 0x7FFFFFFF)) \<and>
   throws (EXCEPTION ''Unknown Qnn Data type'')
     (put_Qnn_Scalar_t example_show_float (QNN_SCALAR_INIT example_env)) \<and>
   put_Qnn_Scalar_t example_show_float
     ((QNN_SCALAR_INIT example_env)\<lparr>dataType := QNN_DATATYPE_FLOAT_16\<rparr>) ''value='' =
     Inr ''value='' \<and>
   returns (put_Qnn_Tensor_t example_show_float (example_Qnn_Tensor_t QNN_DATATYPE_UINT_32)) \<and>
   throws (EXCEPTION ''Unknown Qnn Data type'')
     (put_Qnn_Tensor_t example_show_float
        (example_Qnn_Tensor_t (QNN_DATATYPE_other 0x7FFFFFFF))) \<and>
   returns (put_Qnn_Param_t example_show_float (example_Qnn_Param_t QNN_DATATYPE_UINT_32)) \<and>
   returns (put_Qnn_OpConfig_t example_show_float (example_Qnn_OpConfig_t QNN_DATATYPE_UINT_32)) \<and>
   throws (EXCEPTION ''Unknown Qnn Data type'')
     (put_Qnn_OpConfig_t example_show_float
        (example_Qnn_OpConfig_t (QNN_DATATYPE_other 0x7FFFFFFF)))"
  using formatters_return_or_throw [where tensor_type = "QNN_TENSOR_TYPE_other 99"
      and v = 99 and out = "''type=''"
      and data_type = QNN_DATATYPE_UINT_32 and show_float = example_show_float
      and scalar = "QNN_SCALAR_INIT example_env"
      and tensor = "example_Qnn_Tensor_t QNN_DATATYPE_UINT_32"
      and qnn_param = "example_Qnn_Param_t QNN_DATATYPE_UINT_32"
      and op_definition = "example_Qnn_OpConfig_t QNN_DATATYPE_UINT_32"]
    formatters_return_or_throw [where data_type = "QNN_DATATYPE_other 0x7FFFFFFF"
      and show_float = example_show_float
      and scalar = "(QNN_SCALAR_INIT example_env)\<lparr>dataType := QNN_DATATYPE_FLOAT_16\<rparr>"
      and out = "''value=''"
      and tensor = "example_Qnn_Tensor_t (QNN_DATATYPE_other 0x7FFFFFFF)"
      and op_definition = "example_Qnn_OpConfig_t (QNN_DATATYPE_other 0x7FFFFFFF)"]
  by (simp add: example_known)

end
